theory Spec2Isabelle
  imports
    Complex_Main
    "HOL-Library.Word"
    "HOL-Library.Char_ord"
    "HOL-Library.List_Lexorder"
    "HOL-Library.AList"
begin

section \<open>lesser\_pandas: columns, tables and their operations\<close>

text \<open>
  The development follows \<^verbatim>\<open>lesser_pandas.h\<close>: the class \<^verbatim>\<open>Column\<close>, the helpers
  \<^verbatim>\<open>is_integer\<close> and \<^verbatim>\<open>is_float\<close>, and the class \<^verbatim>\<open>DataFrame\<close>. A C++ exception is
  a value of type \<open>error\<close> on the left of a sum. \<open>Undefined\<close> stands for undefined behaviour
  of the C++ program (an access outside a vector, an \<^verbatim>\<open>int\<close> that overflows): the source
  gives no result there.
\<close>

datatype error =
    OutOfRange        \<comment> \<open>\<^verbatim>\<open>std::out_of_range\<close>\<close>
  | InvalidArgument   \<comment> \<open>\<^verbatim>\<open>std::invalid_argument\<close>\<close>
  | RuntimeError      \<comment> \<open>\<^verbatim>\<open>std::runtime_error\<close>\<close>
  | Undefined         \<comment> \<open>undefined behaviour\<close>

subsection \<open>The standard library functions the source calls\<close>

text \<open>
  A \<^verbatim>\<open>double\<close> is represented by the real number it denotes, or by one of the three
  special values. Arithmetic on finite values is exact in this model: the rounding of
  binary64 and the distinction between the two zeros are outside it.
\<close>

datatype double = Finite real | PInf | NInf | NaN

fun dneg :: "double \<Rightarrow> double" where
  "dneg (Finite x) = Finite (- x)"
| "dneg PInf = NInf"
| "dneg NInf = PInf"
| "dneg NaN = NaN"

fun dadd :: "double \<Rightarrow> double \<Rightarrow> double" where
  "dadd (Finite x) (Finite y) = Finite (x + y)"
| "dadd NaN _ = NaN"
| "dadd _ NaN = NaN"
| "dadd PInf NInf = NaN"
| "dadd NInf PInf = NaN"
| "dadd PInf _ = PInf"
| "dadd NInf _ = NInf"
| "dadd _ PInf = PInf"
| "dadd _ NInf = NInf"


fun deq :: "double \<Rightarrow> double \<Rightarrow> bool" where
  "deq NaN _ = False"
| "deq _ NaN = False"
| "deq a b = (a = b)"

fun dlt :: "double \<Rightarrow> double \<Rightarrow> bool" where
  "dlt (Finite x) (Finite y) = (x < y)"
| "dlt NaN _ = False"
| "dlt _ NaN = False"
| "dlt NInf b = (b \<noteq> NInf)"
| "dlt a PInf = (a \<noteq> PInf)"
| "dlt _ _ = False"

definition dle :: "double \<Rightarrow> double \<Rightarrow> bool" where
  "dle a b = (dlt a b \<or> deq a b)"

text \<open>Character classes of the C locale.\<close>

definition isspace :: "char \<Rightarrow> bool" where
  "isspace c = (c \<in> set [CHR '' '', CHR 0x09, CHR 0x0A, CHR 0x0B, CHR 0x0C, CHR 0x0D])"

definition isdigit :: "char \<Rightarrow> bool" where
  "isdigit c = (CHR ''0'' \<le> c \<and> c \<le> CHR ''9'')"

definition digit_val :: "char \<Rightarrow> nat" where
  "digit_val c = of_char c - 48"

definition tolower :: "char \<Rightarrow> char" where
  "tolower c =
     (case map_of (zip ''ABCDEFGHIJKLMNOPQRSTUVWXYZ'' ''abcdefghijklmnopqrstuvwxyz'') c of
        Some l \<Rightarrow> l
      | None \<Rightarrow> c)"

definition isxdigit :: "char \<Rightarrow> bool" where
  "isxdigit c = (isdigit c \<or> tolower c \<in> set ''abcdef'')"

definition xdigit_val :: "char \<Rightarrow> nat" where
  "xdigit_val c =
     (if isdigit c then digit_val c else of_char (tolower c) - 87)"

definition is_tag_char :: "char \<Rightarrow> bool" where
  "is_tag_char c = (isdigit c \<or> tolower c \<in> set ''abcdefghijklmnopqrstuvwxyz'' \<or> c = CHR ''_'')"

text \<open>The value of a digit string in base \<open>b\<close>, most significant digit first.\<close>

definition digits_val :: "nat \<Rightarrow> (char \<Rightarrow> nat) \<Rightarrow> string \<Rightarrow> nat" where
  "digits_val b dv ds = foldl (\<lambda>acc c. acc * b + dv c) 0 ds"

text \<open>An optional sign: whether it is a minus, and the rest of the string.\<close>

definition take_sign :: "string \<Rightarrow> bool \<times> string" where
  "take_sign s =
     (case s of
        [] \<Rightarrow> (False, [])
      | c # cs \<Rightarrow>
          if c = CHR ''-'' then (True, cs)
          else if c = CHR ''+'' then (False, cs)
          else (False, s))"

text \<open>
  \<^verbatim>\<open>std::stoi(s, &pos)\<close> in base 10, which is \<^verbatim>\<open>strtol\<close>: white space is skipped, then an
  optional sign and a non-empty run of decimal digits are read. With no digit it throws
  \<^verbatim>\<open>invalid_argument\<close>, with a value outside the 32-bit \<^verbatim>\<open>int\<close> it throws
  \<^verbatim>\<open>out_of_range\<close>. The result is the value and \<^verbatim>\<open>pos\<close>, the number of characters read.
\<close>

definition stoi :: "string \<Rightarrow> error + (int \<times> nat)" where
  "stoi s =
     (let r1 = dropWhile isspace s;
          (neg, r2) = take_sign r1;
          ds = takeWhile isdigit r2;
          v = int (digits_val 10 digit_val ds)
      in if ds = [] then Inl InvalidArgument
         else if (if neg then 2 ^ 31 < v else 2 ^ 31 - 1 < v) then Inl OutOfRange
         else Inr (if neg then - v else v, length s - length r2 + length ds))"

text \<open>
  The exponent part of a floating-point numeral: the marker character (\<open>e\<close> or \<open>p\<close>, in
  either case), an optional sign and a non-empty run of decimal digits. Without a digit
  there is no exponent part and nothing is read. The result is the exponent and the
  number of characters read.
\<close>

definition exponent_part :: "char \<Rightarrow> string \<Rightarrow> int \<times> nat" where
  "exponent_part marker s =
     (case s of
        [] \<Rightarrow> (0, 0)
      | c # cs \<Rightarrow>
          if tolower c \<noteq> marker then (0, 0)
          else
            (let (neg, r) = take_sign cs;
                 ds = takeWhile isdigit r;
                 e = int (digits_val 10 digit_val ds)
             in if ds = [] then (0, 0)
                else (if neg then - e else e, 1 + (length cs - length r) + length ds)))"

text \<open>
  A numeral of base \<open>b\<close> (10, or 16 after \<^verbatim>\<open>0x\<close>): digits with at most one point and at
  least one digit, then the exponent part, which scales by powers of \<open>eb\<close> (10 or 2).
  \<open>None\<close> when there is no digit.
\<close>

definition scale :: "real \<Rightarrow> real \<Rightarrow> int \<Rightarrow> real" where
  "scale m eb k = (if 0 \<le> k then m * eb ^ nat k else m / eb ^ nat (- k))"

definition mantissa_exp ::
  "nat \<Rightarrow> (char \<Rightarrow> bool) \<Rightarrow> (char \<Rightarrow> nat) \<Rightarrow> real \<Rightarrow> int \<Rightarrow> char \<Rightarrow> string \<Rightarrow> (real \<times> nat) option" where
  "mantissa_exp b isd dv eb per_digit marker s =
     (let ip = takeWhile isd s;
          r1 = dropWhile isd s;
          has_point = (r1 \<noteq> [] \<and> hd r1 = CHR ''.'');
          fp = (if has_point then takeWhile isd (tl r1) else []);
          r2 = (if has_point then dropWhile isd (tl r1) else r1);
          (e, elen) = exponent_part marker r2
      in if ip = [] \<and> fp = [] then None
         else Some (scale (real (digits_val b dv (ip @ fp))) eb (e - per_digit * int (length fp)),
                    length ip + (if has_point then 1 + length fp else 0) + elen))"

definition ci_prefix :: "string \<Rightarrow> string \<Rightarrow> bool" where
  "ci_prefix p s = (length p \<le> length s \<and> map tolower (take (length p) s) = p)"

text \<open>
  The unsigned part of what \<^verbatim>\<open>strtod\<close> reads: \<^verbatim>\<open>infinity\<close> or \<^verbatim>\<open>inf\<close>, \<^verbatim>\<open>nan\<close> with an
  optional parenthesised tag, a hexadecimal numeral after \<^verbatim>\<open>0x\<close>, or a decimal numeral.
\<close>

definition strtod_body :: "string \<Rightarrow> (double \<times> nat) option" where
  "strtod_body s =
     (if ci_prefix ''infinity'' s then Some (PInf, 8)
      else if ci_prefix ''inf'' s then Some (PInf, 3)
      else if ci_prefix ''nan'' s then
        (let r = drop 3 s; tag = takeWhile is_tag_char (tl r); r' = dropWhile is_tag_char (tl r)
         in if r \<noteq> [] \<and> hd r = CHR ''('' \<and> r' \<noteq> [] \<and> hd r' = CHR '')''
            then Some (NaN, 3 + 1 + length tag + 1)
            else Some (NaN, 3))
      else
        (case (if ci_prefix ''0x'' s
               then mantissa_exp 16 isxdigit xdigit_val 2 4 (CHR ''p'') (drop 2 s)
               else None) of
           Some (v, n) \<Rightarrow> Some (Finite v, 2 + n)
         | None \<Rightarrow>
             (case mantissa_exp 10 isdigit digit_val 10 1 (CHR ''e'') s of
                Some (v, n) \<Rightarrow> Some (Finite v, n)
              | None \<Rightarrow> None)))"

text \<open>
  \<^verbatim>\<open>std::stod(s, &pos)\<close>, which is \<^verbatim>\<open>strtod\<close>: white space is skipped, then an optional
  sign and the body above are read; when nothing can be read it throws
  \<^verbatim>\<open>invalid_argument\<close>. The value is the exact value of the numeral. The
  \<^verbatim>\<open>out_of_range\<close> that \<^verbatim>\<open>stod\<close> throws for a numeral beyond the range of \<^verbatim>\<open>double\<close>
  depends on the rounding and is outside this model.
\<close>

definition stod :: "string \<Rightarrow> error + (double \<times> nat)" where
  "stod s =
     (let r1 = dropWhile isspace s;
          (neg, r2) = take_sign r1
      in case strtod_body r2 of
           None \<Rightarrow> Inl InvalidArgument
         | Some (v, n) \<Rightarrow> Inr (if neg then dneg v else v, length s - length r2 + n))"

subsection \<open>The helpers \<^verbatim>\<open>is_integer\<close> and \<^verbatim>\<open>is_float\<close>\<close>

text \<open>Both catch every exception of the conversion and answer \<open>False\<close> then.\<close>

definition is_integer :: "string \<Rightarrow> bool" where
  "is_integer s = (case stoi s of Inl _ \<Rightarrow> False | Inr (_, pos) \<Rightarrow> pos = length s)"

definition is_float :: "string \<Rightarrow> bool" where
  "is_float s = (case stod s of Inl _ \<Rightarrow> False | Inr (_, pos) \<Rightarrow> pos = length s)"

subsection \<open>Type inference at ingestion\<close>

text \<open>
  The inner loop of the constructor \<^verbatim>\<open>DataFrame(string)\<close> over the values of one column.
  It carries the two flags and leaves at the \<^verbatim>\<open>break\<close> as soon as both are false.
\<close>

fun infer_loop :: "string list \<Rightarrow> bool \<Rightarrow> bool \<Rightarrow> bool \<times> bool" where
  "infer_loop [] all_int all_float = (all_int, all_float)"
| "infer_loop (element # rest) all_int all_float =
     (if length element = 0 then infer_loop rest all_int all_float
      else
        (let all_int' = (if \<not> is_integer element then False else all_int);
             all_float' = (if \<not> is_float element then False else all_float)
         in if \<not> all_int' \<and> \<not> all_float' then (all_int', all_float')
            else infer_loop rest all_int' all_float'))"

definition infer_dtype :: "string list \<Rightarrow> string" where
  "infer_dtype col_values =
     (case infer_loop col_values True True of
        (all_int, all_float) \<Rightarrow>
          if all_int then ''int'' else if all_float then ''float'' else ''string'')"

subsection \<open>The class \<^verbatim>\<open>Column\<close>\<close>

text \<open>
  The values of a column are kept as text; the empty string is a missing value. The tag
  \<open>dtype\<close> is a string in the source: \<^verbatim>\<open>"int"\<close>, \<^verbatim>\<open>"float"\<close> or \<^verbatim>\<open>"string"\<close>.
\<close>

record Column =
  name :: string
  data :: "string list"
  dtype :: string

definition default_Column :: Column where
  "default_Column = \<lparr>name = [], data = [], dtype = ''string''\<rparr>"



text \<open>\<^verbatim>\<open>Column::sum\<close>.\<close>

fun sum_loop :: "string list \<Rightarrow> double \<Rightarrow> error + double" where
  "sum_loop [] acc = Inr acc"
| "sum_loop (element # rest) acc =
     (if length element = 0 then sum_loop rest acc
      else
        (case stod element of
           Inl e \<Rightarrow> Inl e
         | Inr (num, _) \<Rightarrow> sum_loop rest (dadd acc num)))"

definition sum_col :: "Column \<Rightarrow> error + double" where
  "sum_col c =
     (if dtype c = ''int'' \<or> dtype c = ''float'' then sum_loop (data c) (Finite 0)
      else Inl InvalidArgument)"








text \<open>
  \<^verbatim>\<open>std::to_string\<close>. For an \<^verbatim>\<open>int\<close> (a 32-bit word read as signed) it prints the decimal digits after an optional minus
  sign. For a \<^verbatim>\<open>double\<close> it prints as \<^verbatim>\<open>printf("%f")\<close> does: six digits after the point,
  the value rounded to the nearest such numeral, a tie to the even one.
\<close>

fun dec_digits :: "nat \<Rightarrow> string" where
  "dec_digits n =
     (if n < 10 then [''0123456789'' ! n]
      else dec_digits (n div 10) @ [''0123456789'' ! (n mod 10)])"

declare dec_digits.simps [simp del]

definition to_string_int :: "32 word \<Rightarrow> string" where
  "to_string_int x =
     (if sint x < 0 then ''-'' @ dec_digits (nat (- sint x)) else dec_digits (nat (sint x)))"

definition round_even :: "real \<Rightarrow> int" where
  "round_even r =
     (let f = \<lfloor>r\<rfloor>
      in if r - of_int f < 1 / 2 then f
         else if 1 / 2 < r - of_int f then f + 1
         else if even f then f else f + 1)"

definition six_digits :: "nat \<Rightarrow> string" where
  "six_digits n = replicate (6 - length (dec_digits n)) CHR ''0'' @ dec_digits n"

definition to_string_double :: "double \<Rightarrow> string" where
  "to_string_double x =
     (case x of
        Finite r \<Rightarrow>
          (let n = nat (round_even (\<bar>r\<bar> * 1000000))
           in (if r < 0 then ''-'' else []) @ dec_digits (n div 1000000) @ ''.'' @
              six_digits (n mod 1000000))
      | PInf \<Rightarrow> ''inf''
      | NInf \<Rightarrow> ''-inf''
      | NaN \<Rightarrow> ''nan'')"

text \<open>
  The fill value of the template \<^verbatim>\<open>fillna<T>\<close>, at the two numeric instantiations
  \<^verbatim>\<open>T = int\<close> and \<^verbatim>\<open>T = double\<close>, the ones for which the source calls
  \<^verbatim>\<open>to_string\<close>.
\<close>

datatype fill_value = FillInt "32 word" | FillDouble double

definition to_string :: "fill_value \<Rightarrow> string" where
  "to_string x = (case x of FillInt i \<Rightarrow> to_string_int i | FillDouble d \<Rightarrow> to_string_double d)"

text \<open>
  \<^verbatim>\<open>x = static_cast<int>(x)\<close>: at \<^verbatim>\<open>T = int\<close> nothing changes; at \<^verbatim>\<open>T = double\<close> the
  value is truncated towards zero and converted back to \<^verbatim>\<open>double\<close>, and the behaviour is
  undefined when the truncated value is no \<^verbatim>\<open>int\<close>.
\<close>

definition trunc_int :: "real \<Rightarrow> int" where
  "trunc_int r = (if 0 \<le> r then \<lfloor>r\<rfloor> else \<lceil>r\<rceil>)"

definition cast_to_int :: "fill_value \<Rightarrow> error + fill_value" where
  "cast_to_int x =
     (case x of
        FillInt i \<Rightarrow> Inr (FillInt i)
      | FillDouble (Finite r) \<Rightarrow>
          if - (2 ^ 31) \<le> trunc_int r \<and> trunc_int r < 2 ^ 31
          then Inr (FillDouble (Finite (of_int (trunc_int r))))
          else Inl Undefined
      | FillDouble _ \<Rightarrow> Inl Undefined)"

text \<open>
  \<^verbatim>\<open>Column::fillna\<close>: each missing element is replaced by the printed fill value; in a
  column of dtype \<^verbatim>\<open>"int"\<close> the value goes through the cast first. The value \<^verbatim>\<open>x\<close> is
  carried from one element to the next.
\<close>

fun fillna_loop :: "string \<Rightarrow> string list \<Rightarrow> fill_value \<Rightarrow> error + string list" where
  "fillna_loop dt [] x = Inr []"
| "fillna_loop dt (element # rest) x =
     (if length element = 0 then
        (case (if dt = ''int'' then cast_to_int x else Inr x) of
           Inl e \<Rightarrow> Inl e
         | Inr x' \<Rightarrow>
             (case fillna_loop dt rest x' of
                Inl e \<Rightarrow> Inl e
              | Inr r \<Rightarrow> Inr (to_string x' # r)))
      else
        (case fillna_loop dt rest x of
           Inl e \<Rightarrow> Inl e
         | Inr r \<Rightarrow> Inr (element # r)))"

definition fillna_col :: "Column \<Rightarrow> fill_value \<Rightarrow> error + Column" where
  "fillna_col c x =
     (case fillna_loop (dtype c) (data c) x of
        Inl e \<Rightarrow> Inl e
      | Inr d \<Rightarrow> Inr (c\<lparr>data := d\<rparr>))"

text \<open>
  The six comparisons of a column with a \<^verbatim>\<open>double\<close> key. Each throws on a column of
  dtype \<^verbatim>\<open>"string"\<close>; otherwise the mask has \<open>False\<close> for an empty element and for an
  element whose conversion throws, and the comparison of the converted element with the key
  elsewhere.
\<close>

definition compare_element :: "(double \<Rightarrow> double \<Rightarrow> bool) \<Rightarrow> double \<Rightarrow> string \<Rightarrow> bool" where
  "compare_element rel key element =
     (if element = [] then False
      else (case stod element of Inl _ \<Rightarrow> False | Inr (v, _) \<Rightarrow> rel v key))"

definition eq_double :: "Column \<Rightarrow> double \<Rightarrow> error + bool list" where
  "eq_double c key =
     (if dtype c = ''string'' then Inl RuntimeError
      else Inr (map (compare_element (\<lambda>v k. deq v k) key) (data c)))"

definition ne_double :: "Column \<Rightarrow> double \<Rightarrow> error + bool list" where
  "ne_double c key =
     (if dtype c = ''string'' then Inl RuntimeError
      else Inr (map (compare_element (\<lambda>v k. \<not> deq v k) key) (data c)))"

definition lt_double :: "Column \<Rightarrow> double \<Rightarrow> error + bool list" where
  "lt_double c key =
     (if dtype c = ''string'' then Inl RuntimeError
      else Inr (map (compare_element (\<lambda>v k. dlt v k) key) (data c)))"

definition gt_double :: "Column \<Rightarrow> double \<Rightarrow> error + bool list" where
  "gt_double c key =
     (if dtype c = ''string'' then Inl RuntimeError
      else Inr (map (compare_element (\<lambda>v k. dlt k v) key) (data c)))"

definition le_double :: "Column \<Rightarrow> double \<Rightarrow> error + bool list" where
  "le_double c key =
     (if dtype c = ''string'' then Inl RuntimeError
      else Inr (map (compare_element (\<lambda>v k. dle v k) key) (data c)))"

definition ge_double :: "Column \<Rightarrow> double \<Rightarrow> error + bool list" where
  "ge_double c key =
     (if dtype c = ''string'' then Inl RuntimeError
      else Inr (map (compare_element (\<lambda>v k. dle k v) key) (data c)))"

text \<open>
  The six comparisons of a column with a \<^verbatim>\<open>string\<close> key. Each throws on a column of
  dtype \<^verbatim>\<open>"float"\<close> or \<^verbatim>\<open>"int"\<close>; otherwise the mask holds the comparison of each
  element with the key, in the lexicographic order of \<^verbatim>\<open>std::string\<close>.
\<close>

definition eq_string :: "Column \<Rightarrow> string \<Rightarrow> error + bool list" where
  "eq_string c key =
     (if dtype c = ''float'' \<or> dtype c = ''int'' then Inl RuntimeError
      else Inr (map (\<lambda>element. element = key) (data c)))"

definition ne_string :: "Column \<Rightarrow> string \<Rightarrow> error + bool list" where
  "ne_string c key =
     (if dtype c = ''float'' \<or> dtype c = ''int'' then Inl RuntimeError
      else Inr (map (\<lambda>element. element \<noteq> key) (data c)))"

definition lt_string :: "Column \<Rightarrow> string \<Rightarrow> error + bool list" where
  "lt_string c key =
     (if dtype c = ''float'' \<or> dtype c = ''int'' then Inl RuntimeError
      else Inr (map (\<lambda>element. element < key) (data c)))"

definition gt_string :: "Column \<Rightarrow> string \<Rightarrow> error + bool list" where
  "gt_string c key =
     (if dtype c = ''float'' \<or> dtype c = ''int'' then Inl RuntimeError
      else Inr (map (\<lambda>element. key < element) (data c)))"

definition le_string :: "Column \<Rightarrow> string \<Rightarrow> error + bool list" where
  "le_string c key =
     (if dtype c = ''float'' \<or> dtype c = ''int'' then Inl RuntimeError
      else Inr (map (\<lambda>element. element \<le> key) (data c)))"

definition ge_string :: "Column \<Rightarrow> string \<Rightarrow> error + bool list" where
  "ge_string c key =
     (if dtype c = ''float'' \<or> dtype c = ''int'' then Inl RuntimeError
      else Inr (map (\<lambda>element. key \<le> element) (data c)))"

subsection \<open>The class \<^verbatim>\<open>DataFrame\<close>\<close>

text \<open>
  \<open>col_data\<close> is a \<^verbatim>\<open>std::map\<close> from names to columns, kept here as an association list
  with one entry for each key: \<open>map_of\<close> is \<^verbatim>\<open>find\<close>, \<open>AList.update\<close> is the assignment
  \<^verbatim>\<open>col_data[k] = v\<close> and \<open>AList.delete\<close> is \<^verbatim>\<open>erase\<close>. Nothing modelled here depends on
  the order in which the map is traversed. \<open>row_data\<close> is the row-oriented buffer used for
  printing, with the header as its first row.
\<close>

record DataFrame =
  col_data :: "(string \<times> Column) list"
  row_data :: "string list list"
  file_dir :: string
  columns :: "string list"

text \<open>
  The last loop but one of the constructor \<^verbatim>\<open>DataFrame(string)\<close>: each column read from the
  file gets the dtype inferred from its values.
\<close>

definition infer_column :: "Column \<Rightarrow> Column" where
  "infer_column col = col\<lparr>dtype := infer_dtype (data col)\<rparr>"

text \<open>\<^verbatim>\<open>DataFrame::operator[](const string&)\<close>: the column of a name.\<close>

definition column_at :: "DataFrame \<Rightarrow> string \<Rightarrow> error + Column" where
  "column_at df key = (case map_of (col_data df) key of Some c \<Rightarrow> Inr c | None \<Rightarrow> Inl OutOfRange)"

text \<open>
  \<^verbatim>\<open>DataFrame::operator[](const vector<bool>&)\<close>. \<^verbatim>\<open>data_rows\<close> is
  \<^verbatim>\<open>row_data.size() - 1\<close> in \<^verbatim>\<open>size_t\<close>, so it wraps for an empty buffer.
\<close>

definition data_rows :: "DataFrame \<Rightarrow> nat" where
  "data_rows df = (length (row_data df) + 2 ^ 64 - 1) mod 2 ^ 64"

text \<open>
  The loop \<^verbatim>\<open>for (i = 0; i < data_rows; ++i) if (mask[i]) out.push_back(xs[i + offset])\<close>,
  run over a mask of \<^verbatim>\<open>data_rows\<close> entries; \<open>i\<close> is the index read at the head of the
  mask. Reading outside \<open>xs\<close> is undefined.
\<close>

fun copy_masked :: "'a list \<Rightarrow> bool list \<Rightarrow> nat \<Rightarrow> error + 'a list" where
  "copy_masked xs [] i = Inr []"
| "copy_masked xs (b # msk) i =
     (if b then
        (if i < length xs then
           (case copy_masked xs msk (Suc i) of
              Inl e \<Rightarrow> Inl e
            | Inr r \<Rightarrow> Inr (xs ! i # r))
         else Inl Undefined)
      else copy_masked xs msk (Suc i))"

text \<open>
  The loop over \<^verbatim>\<open>columns\<close> that rebuilds each column: \<open>src\<close> is the map of the receiver,
  read with \<^verbatim>\<open>at\<close> (which throws \<^verbatim>\<open>out_of_range\<close> for an unknown name), \<open>dst\<close> the
  map of the new table.
\<close>

fun rebuild_columns ::
  "string list \<Rightarrow> (string \<times> Column) list \<Rightarrow> bool list \<Rightarrow> (string \<times> Column) list \<Rightarrow>
   error + (string \<times> Column) list" where
  "rebuild_columns [] src msk dst = Inr dst"
| "rebuild_columns (col_name # rest) src msk dst =
     (case map_of src col_name of
        None \<Rightarrow> Inl OutOfRange
      | Some c \<Rightarrow>
          (case copy_masked (data c) msk 0 of
             Inl e \<Rightarrow> Inl e
           | Inr d \<Rightarrow>
               rebuild_columns rest src msk
                 (AList.update col_name \<lparr>name = col_name, data = d, dtype = dtype c\<rparr> dst)))"

text \<open>
  The new table starts as a copy of the receiver (the copy constructor copies all four
  members); the header row and the selected rows are then appended to the copied
  \<open>row_data\<close>, and the rebuilt columns are stored in the copied \<open>col_data\<close>. The receiver
  itself is only read.
\<close>

definition filter_mask :: "DataFrame \<Rightarrow> bool list \<Rightarrow> error + DataFrame" where
  "filter_mask df msk =
     (if length msk \<noteq> data_rows df then Inl OutOfRange
      else if row_data df = [] then Inl Undefined
      else
        (case copy_masked (row_data df) msk 1 of
           Inl e \<Rightarrow> Inl e
         | Inr rows \<Rightarrow>
             (case rebuild_columns (columns df) (col_data df) msk (col_data df) of
                Inl e \<Rightarrow> Inl e
              | Inr cd \<Rightarrow>
                  Inr (df\<lparr>col_data := cd,
                          row_data := row_data df @ [row_data df ! 0] @ rows\<rparr>))))"

text \<open>
  \<^verbatim>\<open>DataFrame::rename\<close> changes the receiver pair by pair, and throws at a pair whose old
  name is not found. The result is the exception, if any, together with the table as the
  call leaves it.
\<close>

fun rename :: "(string \<times> string) list \<Rightarrow> DataFrame \<Rightarrow> error option \<times> DataFrame" where
  "rename [] df = (None, df)"
| "rename (col_pair # rest) df =
     (let old_col_name = fst col_pair; new_col_name = snd col_pair
      in case map_of (col_data df) old_col_name of
           Some c \<Rightarrow>
             rename rest
               (df\<lparr>col_data :=
                      AList.delete old_col_name
                        (AList.update new_col_name (c\<lparr>name := new_col_name\<rparr>) (col_data df)),
                    columns :=
                      map (\<lambda>col. if col = old_col_name then new_col_name else col) (columns df)\<rparr>)
         | None \<Rightarrow> (Some OutOfRange, df))"

text \<open>
  \<^verbatim>\<open>DataFrame::fillna\<close>: every missing element of every column is replaced by the printed
  fill value.
\<close>

definition fillna_df :: "DataFrame \<Rightarrow> fill_value \<Rightarrow> DataFrame" where
  "fillna_df df x =
     df\<lparr>col_data :=
          map (\<lambda>(k, c). (k, c\<lparr>data := map (\<lambda>element. if length element = 0 then to_string x
                                                        else element) (data c)\<rparr>))
            (col_data df)\<rparr>"

text \<open>
  \<^verbatim>\<open>DataFrame::dropna\<close>. \<^verbatim>\<open>col_data[col]\<close> inserts a default column for an unknown
  name. The indices of the missing elements are stored in a \<^verbatim>\<open>vector<int>\<close>, so each is
  narrowed to 32 bits (\<open>to_int\<close>). The second loop erases, for each stored index \<^verbatim>\<open>idx\<close> and the
  count \<^verbatim>\<open>jdx\<close> of rows erased so far, the element at position \<^verbatim>\<open>idx - jdx\<close> of every
  column; a position outside a column is undefined, and so is the overflow of the
  \<^verbatim>\<open>int jdx\<close>.
\<close>

definition to_int :: "nat \<Rightarrow> 32 word" where
  "to_int idx = of_nat idx"

definition erase_at :: "nat \<Rightarrow> 'a list \<Rightarrow> 'a list" where
  "erase_at p xs = take p xs @ drop (Suc p) xs"

fun erase_rows ::
  "32 word list \<Rightarrow> nat \<Rightarrow> (string \<times> Column) list \<Rightarrow> error + (string \<times> Column) list" where
  "erase_rows [] jdx cd = Inr cd"
| "erase_rows (idx # rest) jdx cd =
     (let pos = sint idx - int jdx
      in if list_all (\<lambda>(k, c). 0 \<le> pos \<and> pos < int (length (data c))) cd \<and> Suc jdx < 2 ^ 31
         then erase_rows rest (Suc jdx)
                (map (\<lambda>(k, c). (k, c\<lparr>data := erase_at (nat pos) (data c)\<rparr>)) cd)
         else Inl Undefined)"

definition dropna :: "DataFrame \<Rightarrow> string \<Rightarrow> error + DataFrame" where
  "dropna df col =
     (let cd = (case map_of (col_data df) col of
                  None \<Rightarrow> AList.update col default_Column (col_data df)
                | Some _ \<Rightarrow> col_data df);
          d = (case map_of cd col of None \<Rightarrow> [] | Some c \<Rightarrow> data c);
          removed_idx = map to_int (filter (\<lambda>idx. length (d ! idx) = 0) [0..<length d])
      in case erase_rows removed_idx 0 cd of
           Inl e \<Rightarrow> Inl e
         | Inr cd' \<Rightarrow> Inr (df\<lparr>col_data := cd'\<rparr>))"

subsection \<open>Ingestion\<close>

text \<open>
  \<^verbatim>\<open>while (getline(in, element, delim))\<close>: the pieces of the text between the delimiters,
  in order. The last call succeeds on a non-empty remainder and fails at the end of the
  text, so no empty piece is returned after a final delimiter. \<open>cur\<close> holds the characters
  read since the last delimiter.
\<close>

fun getlines :: "char \<Rightarrow> string \<Rightarrow> string \<Rightarrow> string list" where
  "getlines delim cur [] = (if cur = [] then [] else [cur])"
| "getlines delim cur (c # cs) =
     (if c = delim then cur # getlines delim [] cs else getlines delim (cur @ [c]) cs)"

text \<open>
  The inner loop over the fields of a data row: field \<open>jdx\<close> is appended to
  \<^verbatim>\<open>temp_data[jdx]\<close>, which is outside the vector when the row has more fields than the
  header.
\<close>

fun push_fields :: "string list \<Rightarrow> Column list \<Rightarrow> error + Column list" where
  "push_fields [] temp_data = Inr temp_data"
| "push_fields (element # rest) [] = Inl Undefined"
| "push_fields (element # rest) (col # cols) =
     (case push_fields rest cols of
        Inl e \<Rightarrow> Inl e
      | Inr cols' \<Rightarrow> Inr (col\<lparr>data := data col @ [element]\<rparr> # cols'))"

text \<open>
  The loop over the data rows. A row with fewer fields than the header gets one missing
  value, in the column after its last field, and is stored with it in the row buffer.
\<close>

fun read_rows ::
  "string list \<Rightarrow> Column list \<Rightarrow> string list list \<Rightarrow> error + (Column list \<times> string list list)" where
  "read_rows [] temp_data rows = Inr (temp_data, rows)"
| "read_rows (line # lines) temp_data rows =
     (let temp_row = getlines CHR '','' [] line
      in case push_fields temp_row temp_data of
           Inl e \<Rightarrow> Inl e
         | Inr td \<Rightarrow>
             if length temp_row < length (rows ! 0) then
               (if length temp_row < length td then
                  read_rows lines
                    (td[length temp_row :=
                          (td ! length temp_row)\<lparr>data := data (td ! length temp_row) @ ['''']\<rparr>])
                    (rows @ [temp_row @ ['''']])
                else Inl Undefined)
             else read_rows lines td (rows @ [temp_row]))"

text \<open>
  The constructor \<^verbatim>\<open>DataFrame(string)\<close>. \<open>content\<close> is the text of the file, or \<open>None\<close>
  when the file cannot be opened. The first line gives the names of the columns; after the
  data rows each column gets its inferred dtype and is stored in \<open>col_data\<close> under its
  name.
\<close>

definition DataFrame_of_file :: "string option \<Rightarrow> string \<Rightarrow> error + DataFrame" where
  "DataFrame_of_file content new_file_dir =
     (case content of
        None \<Rightarrow> Inl RuntimeError
      | Some text \<Rightarrow>
          (case getlines CHR 0x0A [] text of
             [] \<Rightarrow> Inr \<lparr>col_data = [], row_data = [], file_dir = new_file_dir, columns = []\<rparr>
           | header # lines \<Rightarrow>
               (let names = getlines CHR '','' [] header
                in case read_rows lines (map (\<lambda>element. default_Column\<lparr>name := element\<rparr>) names)
                          [names] of
                     Inl e \<Rightarrow> Inl e
                   | Inr (temp_data, rows) \<Rightarrow>
                       Inr \<lparr>col_data = foldl (\<lambda>cd col. AList.update (name col) col cd) []
                                         (map infer_column temp_data),
                            row_data = rows, file_dir = new_file_dir, columns = names\<rparr>)))"

subsection \<open>Notions used to state the properties\<close>

text \<open>
  The values of a column that are not missing, whether \<^verbatim>\<open>stod\<close> converts a value without
  throwing, whether it converts it to a number (not to a NaN), the number it converts to,
  and the sum of a list of numbers added from the left, starting at zero.
\<close>

definition present :: "string list \<Rightarrow> string list" where
  "present d = filter (\<lambda>e. e \<noteq> []) d"





text \<open>
  The positions a mask keeps, in increasing order: the row at position \<open>j\<close> of a filtered
  column comes from position \<open>kept msk ! j\<close> of the original one.
\<close>

definition kept :: "bool list \<Rightarrow> nat list" where
  "kept msk = filter (\<lambda>i. msk ! i) [0..<length msk]"

text \<open>
  The invariant of a table as ingestion builds it from a regular file: the row buffer holds
  the header and one row for each data row, each entry of \<open>col_data\<close> is stored under the
  name of its column and has one value for each data row, and \<open>columns\<close> and \<open>col_data\<close>
  name the same columns.
\<close>

definition aligned :: "DataFrame \<Rightarrow> bool" where
  "aligned df \<longleftrightarrow>
     row_data df \<noteq> [] \<and> length (row_data df) < 2 ^ 64 \<and>
     list_all (\<lambda>(k, c). name c = k \<and> length (data c) = length (row_data df) - 1 \<and>
                         k \<in> set (columns df)) (col_data df) \<and>
     list_all (\<lambda>col_name. map_of (col_data df) col_name \<noteq> None) (columns df)"

text \<open>
  What \<^verbatim>\<open>dropna\<close> leaves of a column \<open>xs\<close>: its first \<open>p\<close> values, and of the others
  those whose row has a value in the column \<open>d\<close> that is tested.
\<close>

definition keep_present :: "nat \<Rightarrow> string list \<Rightarrow> 'a list \<Rightarrow> 'a list" where
  "keep_present p d xs =
     take p xs @ map fst (filter (\<lambda>(x, e). e \<noteq> []) (zip (drop p xs) d))"

text \<open>
  A data row is regular for a header of \<open>n\<close> fields when it has \<open>n\<close> fields, or \<open>n - 1\<close>
  (the last one left out).
\<close>

definition regular_row :: "nat \<Rightarrow> string \<Rightarrow> bool" where
  "regular_row n line =
     (length (getlines CHR '','' [] line) = n \<or> Suc (length (getlines CHR '','' [] line)) = n)"

section \<open>Properties\<close>

subsection \<open>Evaluating the conversions\<close>

lemmas parse_defs =
  stoi_def stod_def is_integer_def is_float_def take_sign_def isspace_def isdigit_def
  digit_val_def digits_val_def strtod_body_def ci_prefix_def tolower_def mantissa_exp_def
  exponent_part_def scale_def isxdigit_def xdigit_val_def is_tag_char_def Let_def

lemmas stoi_defs =
  stoi_def is_integer_def take_sign_def isspace_def isdigit_def digit_val_def digits_val_def
  Let_def


lemma stod_1: "stod ''1'' = Inr (Finite 1, 1)"
  by (simp add: parse_defs)








subsection \<open>Type inference\<close>

text \<open>
  The flags the loop returns: either they are the two conjunctions over all values that are
  not missing, or the loop left at the \<^verbatim>\<open>break\<close> with both flags false, and then both
  conjunctions are false as well.
\<close>

lemma infer_loop_flags:
  "infer_loop d ai af =
     (ai \<and> (\<forall>e\<in>set d. e \<noteq> [] \<longrightarrow> is_integer e), af \<and> (\<forall>e\<in>set d. e \<noteq> [] \<longrightarrow> is_float e))
   \<or> (infer_loop d ai af = (False, False)
       \<and> \<not> (ai \<and> (\<forall>e\<in>set d. e \<noteq> [] \<longrightarrow> is_integer e))
       \<and> \<not> (af \<and> (\<forall>e\<in>set d. e \<noteq> [] \<longrightarrow> is_float e)))"
proof (induction d arbitrary: ai af)
  case Nil
  show ?case by simp
next
  case (Cons element rest)
  show ?case
  proof (cases "element = []")
    case True
    with Cons.IH [of ai af] show ?thesis by simp
  next
    case False
    show ?thesis
      using False Cons.IH [of "ai \<and> is_integer element" "af \<and> is_float element"]
      by (auto simp: Let_def)
  qed
qed

lemma infer_dtype_int:
  "infer_dtype d = ''int'' \<longleftrightarrow> (\<forall>e\<in>set d. e \<noteq> [] \<longrightarrow> is_integer e)"
  using infer_loop_flags [of d True True] by (auto simp: infer_dtype_def split: if_splits)





text \<open>
  Claim C7 says that a column whose values are all missing gets the dtype \<^verbatim>\<open>"string"\<close>.
  The loop skips every missing value, so both flags keep their initial value and the
  first branch assigns \<^verbatim>\<open>"int"\<close>.
\<close>

theorem all_missing_not_text_counterexample:
  "dtype (infer_column \<lparr>name = ''x'', data = ['''', ''''], dtype = ''string''\<rparr>) \<noteq> ''string''"
  by (simp add: infer_column_def infer_dtype_def)

text \<open>
  Claim C7 as amended: a column in which every value is missing is given the dtype
  \<^verbatim>\<open>"int"\<close> by the inference.
\<close>

theorem all_missing_is_int:
  "(\<forall>e\<in>set (data col). e = []) \<Longrightarrow> dtype (infer_column col) = ''int''"
  by (simp add: infer_column_def infer_dtype_int)

theorem all_missing_is_int_witness:
  "dtype (infer_column \<lparr>name = ''x'', data = ['''', ''''], dtype = ''string''\<rparr>) = ''int''"
  using all_missing_is_int [of "\<lparr>name = ''x'', data = ['''', ''''], dtype = ''string''\<rparr>"]
  by simp

subsection \<open>The mean of a column\<close>







subsection \<open>Comparisons and missing values\<close>

lemma compare_element_missing: "compare_element rel key [] = False"
  by (simp add: compare_element_def)

lemma stod_3: "stod ''3'' = Inr (Finite 3, 1)"
  by (simp add: parse_defs)

lemma nil_less_iff: "([] :: string) < k \<longleftrightarrow> k \<noteq> []"
  by (cases k) simp_all

lemma le_nil_iff: "k \<le> ([] :: string) \<longleftrightarrow> k = []"
  by (cases k) simp_all

text \<open>
  Claim C4 says that a row with a missing value yields \<open>False\<close> under every comparison,
  the ones with a string key included. The string comparisons have no case for the empty
  string: \<^verbatim>\<open>!=\<close> with the key \<^verbatim>\<open>"a"\<close> and \<^verbatim>\<open>==\<close> with the empty key both yield \<open>True\<close>
  on a missing row.
\<close>

theorem missing_row_string_compare_counterexample:
  "ne_string \<lparr>name = ''x'', data = [''''], dtype = ''string''\<rparr> ''a'' = Inr [True]
   \<and> eq_string \<lparr>name = ''x'', data = [''''], dtype = ''string''\<rparr> '''' = Inr [True]"
  by (simp add: ne_string_def eq_string_def)

text \<open>
  Claim C4 as amended. On a column whose dtype is not \<^verbatim>\<open>"string"\<close>, each of the six
  comparisons with a numeric key yields \<open>False\<close> at a row whose value is missing, for every
  key, \<^verbatim>\<open>!=\<close> included. On a column whose dtype is neither \<^verbatim>\<open>"float"\<close> nor \<^verbatim>\<open>"int"\<close>,
  each of the six comparisons with a string key yields, at such a row, the comparison of
  the empty string with the key: \<^verbatim>\<open>==\<close> and \<^verbatim>\<open>>=\<close> hold iff the key is empty, \<^verbatim>\<open>!=\<close>
  and \<^verbatim>\<open><\<close> iff it is not, \<^verbatim>\<open><=\<close> always and \<^verbatim>\<open>>\<close> never.
\<close>

theorem missing_row_compare:
  assumes "i < length (data c)" and "data c ! i = []"
  shows "(dtype c \<noteq> ''string'' \<longrightarrow>
           (\<exists>m. eq_double c key = Inr m \<and> length m = length (data c) \<and> \<not> m ! i) \<and>
           (\<exists>m. ne_double c key = Inr m \<and> length m = length (data c) \<and> \<not> m ! i) \<and>
           (\<exists>m. lt_double c key = Inr m \<and> length m = length (data c) \<and> \<not> m ! i) \<and>
           (\<exists>m. gt_double c key = Inr m \<and> length m = length (data c) \<and> \<not> m ! i) \<and>
           (\<exists>m. le_double c key = Inr m \<and> length m = length (data c) \<and> \<not> m ! i) \<and>
           (\<exists>m. ge_double c key = Inr m \<and> length m = length (data c) \<and> \<not> m ! i)) \<and>
         (dtype c \<noteq> ''float'' \<and> dtype c \<noteq> ''int'' \<longrightarrow>
           (\<exists>m. eq_string c skey = Inr m \<and> length m = length (data c) \<and> (m ! i \<longleftrightarrow> skey = [])) \<and>
           (\<exists>m. ne_string c skey = Inr m \<and> length m = length (data c) \<and> (m ! i \<longleftrightarrow> skey \<noteq> [])) \<and>
           (\<exists>m. lt_string c skey = Inr m \<and> length m = length (data c) \<and> (m ! i \<longleftrightarrow> skey \<noteq> [])) \<and>
           (\<exists>m. gt_string c skey = Inr m \<and> length m = length (data c) \<and> \<not> m ! i) \<and>
           (\<exists>m. le_string c skey = Inr m \<and> length m = length (data c) \<and> m ! i) \<and>
           (\<exists>m. ge_string c skey = Inr m \<and> length m = length (data c) \<and> (m ! i \<longleftrightarrow> skey = [])))"
proof (intro conjI impI)
  assume "dtype c \<noteq> ''string''"
  then show "\<exists>m. eq_double c key = Inr m \<and> length m = length (data c) \<and> \<not> m ! i"
    and "\<exists>m. ne_double c key = Inr m \<and> length m = length (data c) \<and> \<not> m ! i"
    and "\<exists>m. lt_double c key = Inr m \<and> length m = length (data c) \<and> \<not> m ! i"
    and "\<exists>m. gt_double c key = Inr m \<and> length m = length (data c) \<and> \<not> m ! i"
    and "\<exists>m. le_double c key = Inr m \<and> length m = length (data c) \<and> \<not> m ! i"
    and "\<exists>m. ge_double c key = Inr m \<and> length m = length (data c) \<and> \<not> m ! i"
    using assms
    by (simp_all add: eq_double_def ne_double_def lt_double_def gt_double_def le_double_def
        ge_double_def compare_element_missing)
next
  assume "dtype c \<noteq> ''float'' \<and> dtype c \<noteq> ''int''"
  then show "\<exists>m. eq_string c skey = Inr m \<and> length m = length (data c) \<and> (m ! i \<longleftrightarrow> skey = [])"
    and "\<exists>m. ne_string c skey = Inr m \<and> length m = length (data c) \<and> (m ! i \<longleftrightarrow> skey \<noteq> [])"
    and "\<exists>m. lt_string c skey = Inr m \<and> length m = length (data c) \<and> (m ! i \<longleftrightarrow> skey \<noteq> [])"
    and "\<exists>m. gt_string c skey = Inr m \<and> length m = length (data c) \<and> \<not> m ! i"
    and "\<exists>m. le_string c skey = Inr m \<and> length m = length (data c) \<and> m ! i"
    and "\<exists>m. ge_string c skey = Inr m \<and> length m = length (data c) \<and> (m ! i \<longleftrightarrow> skey = [])"
    using assms
    by (auto simp: eq_string_def ne_string_def lt_string_def gt_string_def le_string_def
        ge_string_def nil_less_iff le_nil_iff)
qed

theorem missing_row_compare_witness:
  "eq_double \<lparr>name = ''x'', data = [''1'', '''', ''3''], dtype = ''int''\<rparr> (Finite 1) = Inr [True, False, False]
   \<and> (\<exists>m. ne_double \<lparr>name = ''x'', data = [''1'', '''', ''3''], dtype = ''int''\<rparr> (Finite 1) = Inr m \<and> \<not> m ! 1)
   \<and> (\<exists>m. le_string \<lparr>name = ''y'', data = [''a'', ''''], dtype = ''string''\<rparr> ''a'' = Inr m \<and> m ! 1)"
  using missing_row_compare [of 1 "\<lparr>name = ''x'', data = [''1'', '''', ''3''], dtype = ''int''\<rparr>" "Finite 1" "''a''"]
    missing_row_compare [of 1 "\<lparr>name = ''y'', data = [''a'', ''''], dtype = ''string''\<rparr>" "Finite 1" "''a''"]
  by (auto simp add: eq_double_def compare_element_def stod_1 stod_3)

subsection \<open>Sorting, minimum and maximum\<close>
















subsection \<open>Renaming columns\<close>

lemma rename_append:
  "rename (ps @ qs) df =
     (case rename ps df of (None, df1) \<Rightarrow> rename qs df1 | (Some e, df1) \<Rightarrow> (Some e, df1))"
proof (induction ps arbitrary: df)
  case Nil
  show ?case by simp
next
  case (Cons p ps)
  show ?case
  proof (cases "map_of (col_data df) (fst p)")
    case None
    then show ?thesis by (simp add: Let_def)
  next
    case (Some c)
    then show ?thesis by (simp add: Let_def Cons.IH)
  qed
qed

text \<open>
  Claim C8 says that a call of \<^verbatim>\<open>rename\<close> with an unknown old name fails and leaves the
  table as it was before the call. The pairs are applied one after the other, each to the
  receiver itself: when the second pair has the unknown name, the first pair has already
  been renamed in \<open>col_data\<close> and in \<open>columns\<close> when the exception is thrown. And an old
  name that is no column of the table before the call does not make the call fail when an
  earlier pair has introduced it.
\<close>

theorem rename_partial_counterexample:
  "rename [(''x'', ''z''), (''q'', ''r'')]
     \<lparr>col_data = [(''x'', \<lparr>name = ''x'', data = [''1''], dtype = ''int''\<rparr>)],
      row_data = [[''x''], [''1'']], file_dir = ''f.csv'', columns = [''x'']\<rparr>
   = (Some OutOfRange,
      \<lparr>col_data = [(''z'', \<lparr>name = ''z'', data = [''1''], dtype = ''int''\<rparr>)],
       row_data = [[''x''], [''1'']], file_dir = ''f.csv'', columns = [''z'']\<rparr>) \<and>
   rename [(''x'', ''z''), (''z'', ''w'')]
     \<lparr>col_data = [(''x'', \<lparr>name = ''x'', data = [''1''], dtype = ''int''\<rparr>)],
      row_data = [[''x''], [''1'']], file_dir = ''f.csv'', columns = [''x'']\<rparr>
   = (None,
      \<lparr>col_data = [(''w'', \<lparr>name = ''w'', data = [''1''], dtype = ''int''\<rparr>)],
       row_data = [[''x''], [''1'']], file_dir = ''f.csv'', columns = [''w'']\<rparr>)"
  by (simp add: Let_def)

lemma rename_step:
  assumes "map_of (col_data df) old_name = Some c" and "old_name \<noteq> new_name"
  shows "\<exists>df'. rename [(old_name, new_name)] df = (None, df') \<and>
           columns df' = map (\<lambda>col. if col = old_name then new_name else col) (columns df) \<and>
           row_data df' = row_data df \<and> file_dir df' = file_dir df \<and>
           (\<forall>k. map_of (col_data df') k =
                  (if k = old_name then None
                   else if k = new_name then Some (c\<lparr>name := new_name\<rparr>)
                   else map_of (col_data df) k))"
  using assms by (simp add: Let_def delete_conv' update_conv')

lemma rename_failure:
  "fst (rename vec df) \<noteq> None \<Longrightarrow>
   \<exists>ps old_name new_name qs df1.
     vec = ps @ (old_name, new_name) # qs \<and> rename ps df = (None, df1) \<and>
     map_of (col_data df1) old_name = None \<and> rename vec df = (Some OutOfRange, df1)"
proof (induction vec arbitrary: df)
  case Nil
  then show ?case by simp
next
  case (Cons p rest)
  obtain old_name new_name where p: "p = (old_name, new_name)" by (cases p)
  show ?case
  proof (cases "map_of (col_data df) old_name")
    case None
    then have "p # rest = [] @ (old_name, new_name) # rest \<and> rename [] df = (None, df) \<and>
               map_of (col_data df) old_name = None \<and>
               rename (p # rest) df = (Some OutOfRange, df)"
      using p by (simp add: Let_def)
    then show ?thesis by blast
  next
    case (Some c)
    let ?df2 = "df\<lparr>col_data :=
                      AList.delete old_name
                        (AList.update new_name (c\<lparr>name := new_name\<rparr>) (col_data df)),
                    columns :=
                      map (\<lambda>col. if col = old_name then new_name else col) (columns df)\<rparr>"
    have step: "rename (p # xs) df = rename xs ?df2" for xs
      using p Some by (simp add: Let_def)
    with Cons.prems have "fst (rename rest ?df2) \<noteq> None" by simp
    from Cons.IH [OF this] obtain ps on nn qs df1
      where r: "rest = ps @ (on, nn) # qs" "rename ps ?df2 = (None, df1)"
        "map_of (col_data df1) on = None" "rename rest ?df2 = (Some OutOfRange, df1)"
      by blast
    have "p # rest = (p # ps) @ (on, nn) # qs \<and> rename (p # ps) df = (None, df1) \<and>
          map_of (col_data df1) on = None \<and> rename (p # rest) df = (Some OutOfRange, df1)"
      using r step by simp
    then show ?thesis by blast
  qed
qed

text \<open>
  Claim C8 as amended. \<^verbatim>\<open>rename\<close> applies the pairs in order, each to the table as the
  preceding pairs have left it. A pair whose old name is a column (and differs from the new
  name) moves that column to the new name in \<open>col_data\<close>, sets its \<open>name\<close>, and replaces
  the old name by the new one in \<open>columns\<close>. The call fails, with \<^verbatim>\<open>out_of_range\<close>, exactly
  at the first pair whose old name is not a column of the table as the preceding pairs have
  left it; the renamings of those preceding pairs stay applied, and no later pair is
  applied. The table is in its state from before the call when the failing pair is the
  first one.
\<close>

theorem rename_fails_at_first_unknown:
  "(map_of (col_data df) old_name = Some c \<and> old_name \<noteq> new_name \<longrightarrow>
      (\<exists>df'. rename [(old_name, new_name)] df = (None, df') \<and>
         columns df' = map (\<lambda>col. if col = old_name then new_name else col) (columns df) \<and>
         row_data df' = row_data df \<and> file_dir df' = file_dir df \<and>
         (\<forall>k. map_of (col_data df') k =
                (if k = old_name then None
                 else if k = new_name then Some (c\<lparr>name := new_name\<rparr>)
                 else map_of (col_data df) k)))) \<and>
   (rename ps df = (None, df1) \<longrightarrow> rename (ps @ qs) df = rename qs df1) \<and>
   (rename ps df = (None, df1) \<and> map_of (col_data df1) old_name = None \<longrightarrow>
      rename (ps @ (old_name, new_name) # qs) df = (Some OutOfRange, df1)) \<and>
   (map_of (col_data df) old_name = None \<longrightarrow>
      rename ((old_name, new_name) # qs) df = (Some OutOfRange, df)) \<and>
   (fst (rename vec df) \<noteq> None \<longrightarrow>
      (\<exists>ps old_name new_name qs df1.
         vec = ps @ (old_name, new_name) # qs \<and> rename ps df = (None, df1) \<and>
         map_of (col_data df1) old_name = None \<and> rename vec df = (Some OutOfRange, df1)))"
proof (intro conjI impI)
  assume "map_of (col_data df) old_name = Some c \<and> old_name \<noteq> new_name"
  then show "\<exists>df'. rename [(old_name, new_name)] df = (None, df') \<and>
         columns df' = map (\<lambda>col. if col = old_name then new_name else col) (columns df) \<and>
         row_data df' = row_data df \<and> file_dir df' = file_dir df \<and>
         (\<forall>k. map_of (col_data df') k =
                (if k = old_name then None
                 else if k = new_name then Some (c\<lparr>name := new_name\<rparr>)
                 else map_of (col_data df) k))"
    using rename_step [of df old_name c new_name] by blast
next
  assume "rename ps df = (None, df1)"
  then show "rename (ps @ qs) df = rename qs df1"
    by (simp add: rename_append)
next
  assume "rename ps df = (None, df1) \<and> map_of (col_data df1) old_name = None"
  then show "rename (ps @ (old_name, new_name) # qs) df = (Some OutOfRange, df1)"
    by (simp add: rename_append Let_def)
next
  assume "map_of (col_data df) old_name = None"
  then show "rename ((old_name, new_name) # qs) df = (Some OutOfRange, df)"
    by (simp add: Let_def)
next
  assume "fst (rename vec df) \<noteq> None"
  then show "\<exists>ps old_name new_name qs df1.
         vec = ps @ (old_name, new_name) # qs \<and> rename ps df = (None, df1) \<and>
         map_of (col_data df1) old_name = None \<and> rename vec df = (Some OutOfRange, df1)"
    by (rule rename_failure)
qed

theorem rename_fails_at_first_unknown_witness:
  "(\<exists>df1. rename ([(''x'', ''z'')] @ (''q'', ''r'') # [(''z'', ''w'')])
     \<lparr>col_data = [(''x'', \<lparr>name = ''x'', data = [''1''], dtype = ''int''\<rparr>)],
      row_data = [[''x''], [''1'']], file_dir = ''f.csv'', columns = [''x'']\<rparr>
     = (Some OutOfRange, df1) \<and>
     columns df1 = [''z''] \<and>
     map_of (col_data df1) ''z'' = Some \<lparr>name = ''z'', data = [''1''], dtype = ''int''\<rparr> \<and>
     map_of (col_data df1) ''x'' = None)
   \<and> rename ((''q'', ''r'') # [(''x'', ''z'')])
     \<lparr>col_data = [(''x'', \<lparr>name = ''x'', data = [''1''], dtype = ''int''\<rparr>)],
      row_data = [[''x''], [''1'']], file_dir = ''f.csv'', columns = [''x'']\<rparr>
   = (Some OutOfRange,
      \<lparr>col_data = [(''x'', \<lparr>name = ''x'', data = [''1''], dtype = ''int''\<rparr>)],
      row_data = [[''x''], [''1'']], file_dir = ''f.csv'', columns = [''x'']\<rparr>)"
proof -
  let ?c = "\<lparr>name = ''x'', data = [''1''], dtype = ''int''\<rparr>"
  let ?df = "\<lparr>col_data = [(''x'', ?c)],
      row_data = [[''x''], [''1'']], file_dir = ''f.csv'', columns = [''x'']\<rparr>"
  note t = rename_fails_at_first_unknown
  have "map_of (col_data ?df) ''x'' = Some ?c \<and> ''x'' \<noteq> ''z''"
    by simp
  with t [of ?df "''x''" ?c "''z''"] obtain df1
    where a: "rename [(''x'', ''z'')] ?df = (None, df1)"
      and cols: "columns df1 = map (\<lambda>col. if col = ''x'' then ''z'' else col) (columns ?df)"
      and m: "\<forall>k. map_of (col_data df1) k =
                (if k = ''x'' then None
                 else if k = ''z'' then Some (?c\<lparr>name := ''z''\<rparr>)
                 else map_of (col_data ?df) k)"
    by blast
  from m have b: "map_of (col_data df1) ''q'' = None"
    and z: "map_of (col_data df1) ''z'' = Some \<lparr>name = ''z'', data = [''1''], dtype = ''int''\<rparr>"
    and x: "map_of (col_data df1) ''x'' = None"
    by simp_all
  have c: "map_of (col_data ?df) ''q'' = None"
    by simp
  from t [of ?df "''q''" _ "''r''" "[(''x'', ''z'')]" df1 "[(''z'', ''w'')]"] a b
  have 1: "rename ([(''x'', ''z'')] @ (''q'', ''r'') # [(''z'', ''w'')]) ?df = (Some OutOfRange, df1)"
    by blast
  from t [of ?df "''q''" _ "''r''" "[]" ?df "[(''x'', ''z'')]"] c
  have 2: "rename ((''q'', ''r'') # [(''x'', ''z'')]) ?df = (Some OutOfRange, ?df)"
    by blast
  from 1 2 cols z x show ?thesis by simp
qed

subsection \<open>Filling missing values\<close>

lemma dec_digits_0: "dec_digits 0 = ''0''"
  by (simp add: dec_digits.simps)

lemma dec_digits_2: "dec_digits 2 = ''2''"
  by (simp add: dec_digits.simps)

lemma dec_digits_500000: "dec_digits 500000 = ''500000''"
  by (simp add: dec_digits.simps)

lemma round_even_2500000: "round_even 2500000 = 2500000"
  by (simp add: round_even_def)

lemma round_even_2000000: "round_even 2000000 = 2000000"
  by (simp add: round_even_def)

lemma six_digits_500000: "six_digits 500000 = ''500000''"
  by (simp add: six_digits_def dec_digits_500000)

lemma six_digits_0: "six_digits 0 = ''000000''"
  by (simp add: six_digits_def dec_digits_0 numeral_eq_Suc)

lemma to_string_2_5: "to_string (FillDouble (Finite (5 / 2))) = ''2.500000''"
  by (simp add: to_string_def to_string_double_def Let_def round_even_2500000
      dec_digits_2 six_digits_500000)

lemma to_string_2: "to_string (FillDouble (Finite 2)) = ''2.000000''"
  by (simp add: to_string_def to_string_double_def Let_def round_even_2000000
      dec_digits_2 six_digits_0)

lemma is_integer_2_500000: "\<not> is_integer ''2.500000''"
  by (simp add: stoi_defs)

text \<open>
  Claim C9: the table-level \<^verbatim>\<open>fillna\<close> is to convert a numeric fill value to the kind of
  each numeric column before printing it, so that a filled value of an \<^verbatim>\<open>"int"\<close> column
  is readable as an integer. \<^verbatim>\<open>DataFrame::fillna\<close> prints the value as it is: filling the
  \<^verbatim>\<open>"int"\<close> column \<^verbatim>\<open>["1", ""]\<close> with the \<^verbatim>\<open>double\<close> 2.5 stores \<^verbatim>\<open>"2.500000"\<close>, which
  \<open>is_integer\<close> rejects. \<^verbatim>\<open>Column::fillna\<close> on the same column does apply the cast to
  \<^verbatim>\<open>int\<close> that the table-level function leaves out, and stores the truncated value.
\<close>

theorem fillna_df_no_cast:
  "fillna_df
     \<lparr>col_data = [(''x'', \<lparr>name = ''x'', data = [''1'', ''''], dtype = ''int''\<rparr>)],
      row_data = [[''x''], [''1''], ['''']], file_dir = ''f.csv'', columns = [''x'']\<rparr>
     (FillDouble (Finite 2.5))
   = \<lparr>col_data = [(''x'', \<lparr>name = ''x'', data = [''1'', ''2.500000''], dtype = ''int''\<rparr>)],
      row_data = [[''x''], [''1''], ['''']], file_dir = ''f.csv'', columns = [''x'']\<rparr>
   \<and> \<not> is_integer ''2.500000''
   \<and> fillna_col \<lparr>name = ''x'', data = [''1'', ''''], dtype = ''int''\<rparr> (FillDouble (Finite 2.5))
     = Inr \<lparr>name = ''x'', data = [''1'', ''2.000000''], dtype = ''int''\<rparr>"
  by (simp add: fillna_df_def fillna_col_def to_string_2_5 to_string_2 is_integer_2_500000
      cast_to_int_def trunc_int_def)

subsection \<open>Ingestion establishes the invariant\<close>

lemma push_fields_result:
  "length fs \<le> length td \<Longrightarrow>
   \<exists>td'. push_fields fs td = Inr td' \<and> length td' = length td \<and>
     map name td' = map name td \<and>
     (\<forall>j<length td. length (data (td' ! j)) =
        (if j < length fs then Suc (length (data (td ! j))) else length (data (td ! j))))"
proof (induction fs td rule: push_fields.induct)
  case (1 temp_data)
  show ?case by simp
next
  case (2 element rest)
  then show ?case by simp
next
  case (3 element rest col cols)
  then have "length rest \<le> length cols" by simp
  from "3.IH" [OF this] obtain cols'
    where c: "push_fields rest cols = Inr cols'" "length cols' = length cols"
      "map name cols' = map name cols"
      "\<forall>j<length cols. length (data (cols' ! j)) =
        (if j < length rest then Suc (length (data (cols ! j))) else length (data (cols ! j)))"
    by blast
  have "\<forall>j<length (col # cols).
          length (data ((col\<lparr>data := data col @ [element]\<rparr> # cols') ! j)) =
          (if j < length (element # rest) then Suc (length (data ((col # cols) ! j)))
           else length (data ((col # cols) ! j)))"
  proof (intro allI impI)
    fix j assume "j < length (col # cols)"
    then show "length (data ((col\<lparr>data := data col @ [element]\<rparr> # cols') ! j)) =
          (if j < length (element # rest) then Suc (length (data ((col # cols) ! j)))
           else length (data ((col # cols) ! j)))"
      using c(4) by (cases j) simp_all
  qed
  with c(1-3) show ?case by simp
qed

lemma read_rows_result:
  assumes "\<forall>line\<in>set lines. regular_row (length td) line"
    and "rows \<noteq> []" and "length (rows ! 0) = length td"
    and "\<forall>c\<in>set td. length (data c) = m" and "length rows = Suc m"
  shows "\<exists>td' rows'. read_rows lines td rows = Inr (td', rows') \<and>
           map name td' = map name td \<and>
           (\<forall>c\<in>set td'. length (data c) = m + length lines) \<and>
           length rows' = Suc m + length lines"
  using assms
proof (induction lines arbitrary: td rows m)
  case Nil
  then show ?case by simp
next
  case (Cons line lines)
  let ?row = "getlines CHR '','' [] line"
  from Cons.prems(1) have reg: "length ?row = length td \<or> Suc (length ?row) = length td"
    by (simp add: regular_row_def)
  then have "length ?row \<le> length td" by auto
  from push_fields_result [OF this] obtain td1
    where p: "push_fields ?row td = Inr td1" "length td1 = length td"
      "map name td1 = map name td"
      "\<forall>j<length td. length (data (td1 ! j)) =
        (if j < length ?row then Suc (length (data (td ! j))) else length (data (td ! j)))"
    by blast
  have old: "length (data (td ! j)) = m" if "j < length td" for j
    using that Cons.prems(4) by simp
  show ?case
  proof (cases "length ?row < length td")
    case False
    with reg have full: "length ?row = length td" by auto
    have "\<forall>c\<in>set td1. length (data c) = Suc m"
      using p(2,4) old full by (auto simp: in_set_conv_nth)
    moreover have "\<forall>line\<in>set lines. regular_row (length td1) line"
      using Cons.prems(1) p(2) by simp
    moreover have "rows @ [?row] \<noteq> []" "length ((rows @ [?row]) ! 0) = length td1"
      "length (rows @ [?row]) = Suc (Suc m)"
      using Cons.prems(2,3,5) p(2) by (simp_all add: nth_append)
    ultimately obtain td' rows'
      where "read_rows lines td1 (rows @ [?row]) = Inr (td', rows')"
        "map name td' = map name td1"
        "\<forall>c\<in>set td'. length (data c) = Suc m + length lines"
        "length rows' = Suc (Suc m) + length lines"
      using Cons.IH [of td1 "rows @ [?row]" "Suc m"] by blast
    with p(1,3) full Cons.prems(3) show ?thesis
      by (simp add: Let_def)
  next
    case True
    let ?k = "length ?row"
    let ?td2 = "td1[?k := (td1 ! ?k)\<lparr>data := data (td1 ! ?k) @ ['''']\<rparr>]"
    from True reg have short: "Suc ?k = length td" by auto
    have "length (data (?td2 ! j)) = Suc m" if "j < length td" for j
      using that p(2,4) old short by (cases "j = ?k") (auto simp: nth_list_update)
    then have "\<forall>c\<in>set ?td2. length (data c) = Suc m"
      using p(2) by (auto simp: in_set_conv_nth)
    moreover have "\<forall>line\<in>set lines. regular_row (length ?td2) line"
      using Cons.prems(1) p(2) by simp
    moreover have "rows @ [?row @ ['''']] \<noteq> []" "length ((rows @ [?row @ ['''']]) ! 0) = length ?td2"
      "length (rows @ [?row @ ['''']]) = Suc (Suc m)"
      using Cons.prems(2,3,5) p(2) by (simp_all add: nth_append)
    ultimately obtain td' rows'
      where r: "read_rows lines ?td2 (rows @ [?row @ ['''']]) = Inr (td', rows')"
        "map name td' = map name ?td2"
        "\<forall>c\<in>set td'. length (data c) = Suc m + length lines"
        "length rows' = Suc (Suc m) + length lines"
      using Cons.IH [of ?td2 "rows @ [?row @ ['''']]" "Suc m"] by blast
    have "map name ?td2 = map name td1"
      using True p(2) by (simp add: map_update list_update_same_conv)
    with r p(1,2,3) True Cons.prems(3) show ?thesis
      by (simp add: Let_def)
  qed
qed

lemma update_entries:
  "x \<in> set (AList.update k v al) \<Longrightarrow> x \<in> set al \<or> x = (k, v)"
  by (induction al) (auto split: if_splits)

lemma foldl_update_entries:
  "(k, c) \<in> set (foldl (\<lambda>cd col. AList.update (name col) col cd) cd0 cols) \<Longrightarrow>
   (k, c) \<in> set cd0 \<or> (c \<in> set cols \<and> name c = k)"
proof (induction cols arbitrary: cd0)
  case Nil
  then show ?case by simp
next
  case (Cons col cols)
  from Cons.IH [of "AList.update (name col) col cd0"] Cons.prems
  have "(k, c) \<in> set (AList.update (name col) col cd0) \<or> (c \<in> set cols \<and> name c = k)"
    by simp
  then show ?case
    using update_entries [of "(k, c)" "name col" col cd0] by auto
qed

lemma foldl_update_dom:
  "dom (map_of (foldl (\<lambda>cd col. AList.update (name col) col cd) cd0 cols)) =
     dom (map_of cd0) \<union> name ` set cols"
  by (induction cols arbitrary: cd0) (simp_all add: update_conv' Un_assoc)

lemma infer_column_fields [simp]:
  "name (infer_column c) = name c" "data (infer_column c) = data c"
  by (simp_all add: infer_column_def)

text \<open>
  A file whose data rows are all regular is read without error, and the table built from
  it satisfies \<open>aligned\<close>; its columns are the fields of the header, and each column has
  the dtype inferred from its values.
\<close>

lemma ingestion_aligned:
  assumes lines: "getlines CHR 0x0A [] text = header # lines"
    and regular: "\<forall>line\<in>set lines. regular_row (length (getlines CHR '','' [] header)) line"
    and size: "Suc (length lines) < 2 ^ 64"
  shows "\<exists>df. DataFrame_of_file (Some text) path = Inr df \<and> aligned df \<and>
           columns df = getlines CHR '','' [] header \<and>
           (\<forall>(k, c)\<in>set (col_data df). dtype c = infer_dtype (data c))"
proof -
  let ?names = "getlines CHR '','' [] header"
  let ?td0 = "map (\<lambda>element. default_Column\<lparr>name := element\<rparr>) ?names"
  have "\<forall>line\<in>set lines. regular_row (length ?td0) line"
    using regular by simp
  moreover have "[?names] \<noteq> []" "length ([?names] ! 0) = length ?td0"
    "\<forall>c\<in>set ?td0. length (data c) = 0" "length [?names] = Suc 0"
    by (auto simp: default_Column_def)
  ultimately obtain td rows
    where r: "read_rows lines ?td0 [?names] = Inr (td, rows)"
      and n: "map name td = map name ?td0"
      and l: "\<forall>c\<in>set td. length (data c) = 0 + length lines"
      and rl: "length rows = Suc 0 + length lines"
    using read_rows_result [of lines ?td0 "[?names]" 0] by blast
  let ?cd = "foldl (\<lambda>cd col. AList.update (name col) col cd) [] (map infer_column td)"
  let ?df = "\<lparr>col_data = ?cd, row_data = rows, file_dir = path, columns = ?names\<rparr>"
  have names: "map name td = ?names"
    using n by (simp add: o_def)
  have res: "DataFrame_of_file (Some text) path = Inr ?df"
    using lines r by (simp add: DataFrame_of_file_def Let_def)
  have entry: "name c = k \<and> length (data c) = length rows - 1 \<and> k \<in> set ?names \<and>
               dtype c = infer_dtype (data c)"
    if "(k, c) \<in> set ?cd" for k c
  proof -
    from foldl_update_entries [OF that]
    have "c \<in> set (map infer_column td)" and k: "name c = k"
      by simp_all
    then have "c \<in> infer_column ` set td"
      by (simp only: set_map)
    then obtain c0 where c0: "c0 \<in> set td" "c = infer_column c0"
      by (rule imageE)
    from c0(1) have "name c0 \<in> set (map name td)" by simp
    with names have "name c0 \<in> set ?names" by simp
    with c0 k l rl show ?thesis
      by (auto simp: infer_column_def)
  qed
  have "map_of ?cd col_name \<noteq> None" if "col_name \<in> set ?names" for col_name
  proof -
    from that names have "col_name \<in> name ` set td" by (metis set_map)
    then have "col_name \<in> name ` set (map infer_column td)" by (auto simp: image_iff)
    then have "col_name \<in> dom (map_of ?cd)" by (simp only: foldl_update_dom) simp
    then show ?thesis by auto
  qed
  with entry rl size have "aligned ?df"
    by (auto simp: aligned_def list_all_iff)
  with res entry show ?thesis
    by (intro exI [of _ ?df]) auto
qed

subsection \<open>Filtering by a mask\<close>

lemma kept_Nil: "kept [] = []"
  by (simp add: kept_def)

lemma kept_Cons: "kept (b # msk) = (if b then [0] else []) @ map Suc (kept msk)"
proof -
  have "[0..<Suc (length msk)] = 0 # map Suc [0..<length msk]"
    by (simp add: upt_conv_Cons map_Suc_upt del: upt_Suc)
  then show ?thesis
    by (simp add: kept_def filter_map o_def del: upt_Suc)
qed

lemma length_kept: "length (kept msk) = length (filter (\<lambda>b. b) msk)"
  by (induction msk) (simp_all add: kept_Nil kept_Cons)

lemma copy_masked_kept:
  "i + length msk \<le> length xs \<Longrightarrow>
   copy_masked xs msk i = Inr (map (\<lambda>j. xs ! (i + j)) (kept msk))"
proof (induction msk arbitrary: i)
  case Nil
  show ?case by (simp add: kept_Nil)
next
  case (Cons b msk)
  from Cons.prems have "Suc i + length msk \<le> length xs" and "i < length xs" by simp_all
  with Cons.IH [of "Suc i"] show ?case
    by (simp add: kept_Cons o_def)
qed

lemma map_of_update: "map_of (AList.update k v al) k' = (if k' = k then Some v else map_of al k')"
  by (simp add: update_conv')

lemma rebuild_columns_result:
  assumes "\<forall>col\<in>set cols. \<exists>c. map_of src col = Some c \<and> length msk \<le> length (data c)"
  shows "\<exists>dst'. rebuild_columns cols src msk dst = Inr dst' \<and>
           (\<forall>k. map_of dst' k =
                  (if k \<in> set cols
                   then map_option (\<lambda>c. \<lparr>name = k, data = map (\<lambda>j. data c ! j) (kept msk),
                                         dtype = dtype c\<rparr>) (map_of src k)
                   else map_of dst k))"
  using assms
proof (induction cols arbitrary: dst)
  case Nil
  show ?case by simp
next
  case (Cons col_name rest)
  from Cons.prems obtain c where c: "map_of src col_name = Some c"
    and len: "length msk \<le> length (data c)"
    by auto
  from len have cm: "copy_masked (data c) msk 0 = Inr (map (\<lambda>j. data c ! j) (kept msk))"
    using copy_masked_kept [of 0 msk "data c"] by simp
  let ?dst = "AList.update col_name
                \<lparr>name = col_name, data = map (\<lambda>j. data c ! j) (kept msk), dtype = dtype c\<rparr> dst"
  from Cons.prems have "\<forall>col\<in>set rest. \<exists>c. map_of src col = Some c \<and> length msk \<le> length (data c)"
    by simp
  from Cons.IH [OF this, of ?dst] obtain dst'
    where r: "rebuild_columns rest src msk ?dst = Inr dst'"
      and m: "\<forall>k. map_of dst' k =
                  (if k \<in> set rest
                   then map_option (\<lambda>c. \<lparr>name = k, data = map (\<lambda>j. data c ! j) (kept msk),
                                         dtype = dtype c\<rparr>) (map_of src k)
                   else map_of ?dst k)"
    by blast
  have "rebuild_columns (col_name # rest) src msk dst = Inr dst'"
    using c cm r by simp
  moreover have "\<forall>k. map_of dst' k =
                  (if k \<in> set (col_name # rest)
                   then map_option (\<lambda>c. \<lparr>name = k, data = map (\<lambda>j. data c ! j) (kept msk),
                                         dtype = dtype c\<rparr>) (map_of src k)
                   else map_of dst k)"
    using m c by (simp add: map_of_update)
  ultimately show ?case by blast
qed

lemma aligned_data_rows: "aligned df \<Longrightarrow> data_rows df = length (row_data df) - 1"
proof -
  assume a: "aligned df"
  then have "0 < length (row_data df)" and "length (row_data df) < 2 ^ 64"
    by (simp_all add: aligned_def)
  then have e: "length (row_data df) + 2 ^ 64 - 1 = (length (row_data df) - 1) + 2 ^ 64"
    and b: "length (row_data df) - 1 < 2 ^ 64"
    by simp_all
  have "data_rows df = ((length (row_data df) - 1) + 2 ^ 64) mod 2 ^ 64"
    unfolding data_rows_def e ..
  also have "\<dots> = (length (row_data df) - 1) mod 2 ^ 64"
    by (rule mod_add_self2)
  also have "\<dots> = length (row_data df) - 1"
    using b by (rule mod_less)
  finally show ?thesis .
qed

lemma aligned_lookup:
  "aligned df \<Longrightarrow> map_of (col_data df) k = Some c \<Longrightarrow>
   name c = k \<and> length (data c) = length (row_data df) - 1 \<and> k \<in> set (columns df)"
  by (auto simp: aligned_def list_all_iff dest!: map_of_SomeD)

lemma aligned_columns:
  "aligned df \<Longrightarrow> k \<in> set (columns df) \<Longrightarrow> \<exists>c. map_of (col_data df) k = Some c"
  by (auto simp: aligned_def list_all_iff)

lemma filter_mask_aligned:
  assumes a: "aligned df" and len: "length msk = data_rows df"
  shows "\<exists>cd. filter_mask df msk =
           Inr (df\<lparr>col_data := cd,
                   row_data := row_data df @ [row_data df ! 0] @
                               map (\<lambda>j. row_data df ! (1 + j)) (kept msk)\<rparr>) \<and>
           (\<forall>k. map_of cd k =
                  map_option (\<lambda>c. \<lparr>name = k, data = map (\<lambda>j. data c ! j) (kept msk),
                                        dtype = dtype c\<rparr>) (map_of (col_data df) k))"
proof -
  from a have ne: "row_data df \<noteq> []" by (simp add: aligned_def)
  from a len have l: "length msk = length (row_data df) - 1"
    by (simp add: aligned_data_rows)
  with ne have "1 + length msk \<le> length (row_data df)"
    by (cases "row_data df") simp_all
  then have rows: "copy_masked (row_data df) msk 1 =
                     Inr (map (\<lambda>j. row_data df ! (1 + j)) (kept msk))"
    by (rule copy_masked_kept)
  have "\<forall>col\<in>set (columns df). \<exists>c. map_of (col_data df) col = Some c \<and>
          length msk \<le> length (data c)"
    using aligned_columns [OF a] aligned_lookup [OF a] l by fastforce
  from rebuild_columns_result [OF this, of "col_data df"] obtain cd
    where r: "rebuild_columns (columns df) (col_data df) msk (col_data df) = Inr cd"
      and m: "\<forall>k. map_of cd k =
                  (if k \<in> set (columns df)
                   then map_option (\<lambda>c. \<lparr>name = k, data = map (\<lambda>j. data c ! j) (kept msk),
                                         dtype = dtype c\<rparr>) (map_of (col_data df) k)
                   else map_of (col_data df) k)"
    by blast
  have "map_of cd k =
          map_option (\<lambda>c. \<lparr>name = k, data = map (\<lambda>j. data c ! j) (kept msk),
                                        dtype = dtype c\<rparr>) (map_of (col_data df) k)" for k
  proof (cases "k \<in> set (columns df)")
    case True
    with m show ?thesis by simp
  next
    case False
    with aligned_lookup [OF a, of k] have "map_of (col_data df) k = None"
      by (cases "map_of (col_data df) k") auto
    with m False show ?thesis by simp
  qed
  moreover have "filter_mask df msk =
           Inr (df\<lparr>col_data := cd,
                   row_data := row_data df @ [row_data df ! 0] @
                               map (\<lambda>j. row_data df ! (1 + j)) (kept msk)\<rparr>)"
    using len ne rows r by (simp add: filter_mask_def)
  ultimately show ?thesis by blast
qed

text \<open>
  What the filter does to the columns. A mask whose length differs from \<^verbatim>\<open>data_rows\<close>
  makes it throw \<^verbatim>\<open>out_of_range\<close>, for every table. On a table that satisfies the
  invariant \<open>aligned\<close> and a mask of the right length it returns a new table with the same
  \<open>columns\<close> list and the same column names; each column keeps its name and dtype, has as
  many values as the mask has true entries, and its value at the new position \<open>j\<close> is the
  original column's value at the old position \<open>kept msk ! j\<close>, the same old position for
  every column.
\<close>

lemma filter_mask_rows:
  "(length msk \<noteq> data_rows df \<longrightarrow> filter_mask df msk = Inl OutOfRange) \<and>
   (aligned df \<and> length msk = data_rows df \<longrightarrow>
      (\<exists>df'. filter_mask df msk = Inr df' \<and>
         columns df' = columns df \<and>
         (\<forall>k. (map_of (col_data df') k = None \<longleftrightarrow> map_of (col_data df) k = None) \<and>
              (\<forall>c. map_of (col_data df) k = Some c \<longrightarrow>
                 (\<exists>c'. map_of (col_data df') k = Some c' \<and>
                    name c' = name c \<and> dtype c' = dtype c \<and>
                    length (data c') = length (filter (\<lambda>b. b) msk) \<and>
                    data c' = map (\<lambda>j. data c ! j) (kept msk))))))"
proof (intro conjI impI)
  assume "length msk \<noteq> data_rows df"
  then show "filter_mask df msk = Inl OutOfRange"
    by (simp add: filter_mask_def)
next
  assume h: "aligned df \<and> length msk = data_rows df"
  then have a: "aligned df" and len: "length msk = data_rows df" by simp_all
  from filter_mask_aligned [OF a len] obtain cd
    where f: "filter_mask df msk =
           Inr (df\<lparr>col_data := cd,
                   row_data := row_data df @ [row_data df ! 0] @
                               map (\<lambda>j. row_data df ! (1 + j)) (kept msk)\<rparr>)"
      and m: "\<forall>k. map_of cd k =
                  map_option (\<lambda>c. \<lparr>name = k, data = map (\<lambda>j. data c ! j) (kept msk),
                                        dtype = dtype c\<rparr>) (map_of (col_data df) k)"
    by blast
  let ?df' = "df\<lparr>col_data := cd,
                   row_data := row_data df @ [row_data df ! 0] @
                               map (\<lambda>j. row_data df ! (1 + j)) (kept msk)\<rparr>"
  have "(map_of (col_data ?df') k = None \<longleftrightarrow> map_of (col_data df) k = None) \<and>
        (\<forall>c. map_of (col_data df) k = Some c \<longrightarrow>
           (\<exists>c'. map_of (col_data ?df') k = Some c' \<and>
              name c' = name c \<and> dtype c' = dtype c \<and>
              length (data c') = length (filter (\<lambda>b. b) msk) \<and>
              data c' = map (\<lambda>j. data c ! j) (kept msk)))" for k
    using m aligned_lookup [OF a, of k] by (auto simp: length_kept)
  with f show "\<exists>df'. filter_mask df msk = Inr df' \<and>
         columns df' = columns df \<and>
         (\<forall>k. (map_of (col_data df') k = None \<longleftrightarrow> map_of (col_data df) k = None) \<and>
              (\<forall>c. map_of (col_data df) k = Some c \<longrightarrow>
                 (\<exists>c'. map_of (col_data df') k = Some c' \<and>
                    name c' = name c \<and> dtype c' = dtype c \<and>
                    length (data c') = length (filter (\<lambda>b. b) msk) \<and>
                    data c' = map (\<lambda>j. data c ! j) (kept msk))))"
    by (intro exI [of _ ?df']) simp
qed

lemma filter_mask_rows_example:
  "\<exists>df'. filter_mask
      \<lparr>col_data = [(''x'', \<lparr>name = ''x'', data = [''1'', '''', ''3''], dtype = ''int''\<rparr>),
                   (''y'', \<lparr>name = ''y'', data = [''a'', ''b'', ''c''], dtype = ''string''\<rparr>)],
       row_data = [[''x'', ''y''], [''1'', ''a''], ['''', ''b''], [''3'', ''c'']],
       file_dir = ''f.csv'', columns = [''x'', ''y'']\<rparr>
      [True, False, True] = Inr df' \<and>
     columns df' = [''x'', ''y''] \<and>
     map_of (col_data df') ''x'' = Some \<lparr>name = ''x'', data = [''1'', ''3''], dtype = ''int''\<rparr> \<and>
     map_of (col_data df') ''y'' = Some \<lparr>name = ''y'', data = [''a'', ''c''], dtype = ''string''\<rparr> \<and>
     filter_mask
      \<lparr>col_data = [(''x'', \<lparr>name = ''x'', data = [''1'', '''', ''3''], dtype = ''int''\<rparr>),
                   (''y'', \<lparr>name = ''y'', data = [''a'', ''b'', ''c''], dtype = ''string''\<rparr>)],
       row_data = [[''x'', ''y''], [''1'', ''a''], ['''', ''b''], [''3'', ''c'']],
       file_dir = ''f.csv'', columns = [''x'', ''y'']\<rparr>
      [True, False] = Inl OutOfRange"
proof -
  let ?x = "\<lparr>name = ''x'', data = [''1'', '''', ''3''], dtype = ''int''\<rparr>"
  let ?y = "\<lparr>name = ''y'', data = [''a'', ''b'', ''c''], dtype = ''string''\<rparr>"
  let ?t = "\<lparr>col_data = [(''x'', ?x), (''y'', ?y)],
       row_data = [[''x'', ''y''], [''1'', ''a''], ['''', ''b''], [''3'', ''c'']],
       file_dir = ''f.csv'', columns = [''x'', ''y'']\<rparr>"
  have a: "aligned ?t"
    by (simp add: aligned_def)
  have l: "length [True, False, True] = data_rows ?t"
    by (simp add: data_rows_def)
  have k: "kept [True, False, True] = [0, 2]"
    by (simp add: kept_Cons kept_Nil)
  from filter_mask_rows [of "[True, False, True]" ?t] a l obtain df'
    where f: "filter_mask ?t [True, False, True] = Inr df'"
      and c: "columns df' = columns ?t"
      and m: "\<forall>k. (map_of (col_data df') k = None \<longleftrightarrow> map_of (col_data ?t) k = None) \<and>
              (\<forall>c. map_of (col_data ?t) k = Some c \<longrightarrow>
                 (\<exists>c'. map_of (col_data df') k = Some c' \<and>
                    name c' = name c \<and> dtype c' = dtype c \<and>
                    length (data c') = length (filter (\<lambda>b. b) [True, False, True]) \<and>
                    data c' = map (\<lambda>j. data c ! j) (kept [True, False, True])))"
    by blast
  have "map_of (col_data ?t) ''x'' = Some ?x" by simp
  with m obtain cx where cx: "map_of (col_data df') ''x'' = Some cx" "name cx = name ?x"
    "dtype cx = dtype ?x" "data cx = map (\<lambda>j. data ?x ! j) (kept [True, False, True])"
    by blast
  have "map_of (col_data ?t) ''y'' = Some ?y" by simp
  with m obtain cy where cy: "map_of (col_data df') ''y'' = Some cy" "name cy = name ?y"
    "dtype cy = dtype ?y" "data cy = map (\<lambda>j. data ?y ! j) (kept [True, False, True])"
    by blast
  have "cx = \<lparr>name = ''x'', data = [''1'', ''3''], dtype = ''int''\<rparr>"
    using cx(2-4) by (simp add: k)
  moreover have "cy = \<lparr>name = ''y'', data = [''a'', ''c''], dtype = ''string''\<rparr>"
    using cy(2-4) by (simp add: k)
  moreover have "length [True, False] \<noteq> data_rows ?t"
    by (simp add: data_rows_def)
  with filter_mask_rows [of "[True, False]" ?t]
  have "filter_mask ?t [True, False] = Inl OutOfRange"
    by blast
  ultimately show ?thesis
    using f c cx(1) cy(1) by simp
qed

text \<open>
  The row buffer of a filtered table is the whole buffer of the receiver followed by the
  header and the selected rows, so it is always longer than the receiver's, and the filter
  never returns a table equal to its receiver.
\<close>

lemma filter_mask_row_data_grows:
  "filter_mask df msk = Inr df' \<Longrightarrow> length (row_data df) < length (row_data df')"
  by (auto simp: filter_mask_def split: if_splits sum.splits)

lemma filter_mask_not_receiver: "filter_mask df msk \<noteq> Inr df"
  using filter_mask_row_data_grows [of df msk df] by auto

text \<open>
  Claim C1: for every table, a mask of the wrong length is to fail with a range error, and
  any other mask is to give a new table whose row count is the number of true entries of
  the mask. The first half holds (lemma \<open>filter_mask_rows\<close>). The table that the filter
  returns, however, has in its row buffer all the rows of the receiver, then the header
  again and the selected rows: for the table of three data rows below and a mask with two
  true entries, \<^verbatim>\<open>data_rows\<close> of the result is 6 and not 2, while its columns have 2
  values. On that result, a table the interface hands out, the second half fails too: the
  mask of length 2 is rejected with \<^verbatim>\<open>out_of_range\<close>, and the all-true mask of length 6,
  which passes the length test, reads the columns outside their two values.
\<close>

theorem filter_result_row_buffer:
  "filter_mask
      \<lparr>col_data = [(''x'', \<lparr>name = ''x'', data = [''1'', '''', ''3''], dtype = ''int''\<rparr>),
                   (''y'', \<lparr>name = ''y'', data = [''a'', ''b'', ''c''], dtype = ''string''\<rparr>)],
       row_data = [[''x'', ''y''], [''1'', ''a''], ['''', ''b''], [''3'', ''c'']],
       file_dir = ''f.csv'', columns = [''x'', ''y'']\<rparr>
      [True, False, True]
    = Inr \<lparr>col_data = [(''x'', \<lparr>name = ''x'', data = [''1'', ''3''], dtype = ''int''\<rparr>),
                      (''y'', \<lparr>name = ''y'', data = [''a'', ''c''], dtype = ''string''\<rparr>)],
           row_data = [[''x'', ''y''], [''1'', ''a''], ['''', ''b''], [''3'', ''c''],
                       [''x'', ''y''], [''1'', ''a''], [''3'', ''c'']],
           file_dir = ''f.csv'', columns = [''x'', ''y'']\<rparr> \<and>
   length (filter (\<lambda>b. b) [True, False, True]) = 2 \<and>
   data_rows
      \<lparr>col_data = [(''x'', \<lparr>name = ''x'', data = [''1'', ''3''], dtype = ''int''\<rparr>),
                   (''y'', \<lparr>name = ''y'', data = [''a'', ''c''], dtype = ''string''\<rparr>)],
       row_data = [[''x'', ''y''], [''1'', ''a''], ['''', ''b''], [''3'', ''c''],
                   [''x'', ''y''], [''1'', ''a''], [''3'', ''c'']],
       file_dir = ''f.csv'', columns = [''x'', ''y'']\<rparr> = 6 \<and>
   filter_mask
      \<lparr>col_data = [(''x'', \<lparr>name = ''x'', data = [''1'', ''3''], dtype = ''int''\<rparr>),
                   (''y'', \<lparr>name = ''y'', data = [''a'', ''c''], dtype = ''string''\<rparr>)],
       row_data = [[''x'', ''y''], [''1'', ''a''], ['''', ''b''], [''3'', ''c''],
                   [''x'', ''y''], [''1'', ''a''], [''3'', ''c'']],
       file_dir = ''f.csv'', columns = [''x'', ''y'']\<rparr>
      [True, True]
    = Inl OutOfRange \<and>
   filter_mask
      \<lparr>col_data = [(''x'', \<lparr>name = ''x'', data = [''1'', ''3''], dtype = ''int''\<rparr>),
                   (''y'', \<lparr>name = ''y'', data = [''a'', ''c''], dtype = ''string''\<rparr>)],
       row_data = [[''x'', ''y''], [''1'', ''a''], ['''', ''b''], [''3'', ''c''],
                   [''x'', ''y''], [''1'', ''a''], [''3'', ''c'']],
       file_dir = ''f.csv'', columns = [''x'', ''y'']\<rparr>
      [True, True, True, True, True, True]
    = Inl Undefined"
  by (simp add: filter_mask_def data_rows_def)

text \<open>
  Claim C3: filtering the result of a filter again, with an all-true mask as long as the
  filtered table's row count, is to succeed and return an equal table. The filtered table of
  the example has one value in its column but five rows in its row buffer, so \<^verbatim>\<open>data_rows\<close>
  is 4: the all-true mask of length 1 is rejected with \<^verbatim>\<open>out_of_range\<close>, and the all-true
  mask of length 4 passes the length test and then reads the column outside its one value.
\<close>

theorem refilter_all_true_fails:
  "filter_mask
      \<lparr>col_data = [(''x'', \<lparr>name = ''x'', data = [''1'', ''2''], dtype = ''int''\<rparr>)],
       row_data = [[''x''], [''1''], [''2'']], file_dir = ''f.csv'', columns = [''x'']\<rparr>
      [True, False]
    = Inr \<lparr>col_data = [(''x'', \<lparr>name = ''x'', data = [''1''], dtype = ''int''\<rparr>)],
           row_data = [[''x''], [''1''], [''2''], [''x''], [''1'']],
           file_dir = ''f.csv'', columns = [''x'']\<rparr> \<and>
   filter_mask
      \<lparr>col_data = [(''x'', \<lparr>name = ''x'', data = [''1''], dtype = ''int''\<rparr>)],
       row_data = [[''x''], [''1''], [''2''], [''x''], [''1'']],
       file_dir = ''f.csv'', columns = [''x'']\<rparr>
      [True]
    = Inl OutOfRange \<and>
   data_rows
      \<lparr>col_data = [(''x'', \<lparr>name = ''x'', data = [''1''], dtype = ''int''\<rparr>)],
       row_data = [[''x''], [''1''], [''2''], [''x''], [''1'']],
       file_dir = ''f.csv'', columns = [''x'']\<rparr> = 4 \<and>
   filter_mask
      \<lparr>col_data = [(''x'', \<lparr>name = ''x'', data = [''1''], dtype = ''int''\<rparr>)],
       row_data = [[''x''], [''1''], [''2''], [''x''], [''1'']],
       file_dir = ''f.csv'', columns = [''x'']\<rparr>
      [True, True, True, True]
    = Inl Undefined"
  by (simp add: filter_mask_def data_rows_def)

subsection \<open>Dropping the rows with a missing value\<close>

lemma missing_Cons:
  "filter (\<lambda>idx. length ((e # d) ! idx) = 0) [0..<length (e # d)] =
     (if e = [] then [0] else []) @
     map Suc (filter (\<lambda>idx. length (d ! idx) = 0) [0..<length d])"
proof -
  have "[0..<Suc (length d)] = 0 # map Suc [0..<length d]"
    by (simp add: upt_conv_Cons map_Suc_upt del: upt_Suc)
  then show ?thesis
    by (simp add: filter_map o_def del: upt_Suc)
qed

lemma sint_to_int: "n < 2 ^ 31 \<Longrightarrow> sint (to_int n) = int n"
  by (simp add: to_int_def signed_of_nat signed_take_bit_int_eq_self)

lemma keep_present_erase:
  "p < length xs \<Longrightarrow> keep_present p d (erase_at p xs) = keep_present p ([] # d) xs"
proof -
  assume p: "p < length xs"
  then have "drop p xs = xs ! p # drop (Suc p) xs"
    by (simp add: Cons_nth_drop_Suc)
  moreover from p have "take p (erase_at p xs) = take p xs"
    and "drop p (erase_at p xs) = drop (Suc p) xs"
    by (simp_all add: erase_at_def)
  ultimately show ?thesis
    by (simp add: keep_present_def)
qed

lemma keep_present_skip:
  "p < length xs \<Longrightarrow> e \<noteq> [] \<Longrightarrow> keep_present (Suc p) d xs = keep_present p (e # d) xs"
proof -
  assume p: "p < length xs" and e: "e \<noteq> []"
  then have "drop p xs = xs ! p # drop (Suc p) xs" and "take (Suc p) xs = take p xs @ [xs ! p]"
    by (simp_all add: Cons_nth_drop_Suc take_Suc_conv_app_nth)
  with e show ?thesis
    by (simp add: keep_present_def)
qed

lemma erase_rows_step:
  "list_all (\<lambda>(k, c). 0 \<le> sint idx - int jdx \<and> sint idx - int jdx < int (length (data c))) cd \<Longrightarrow>
   Suc jdx < 2 ^ 31 \<Longrightarrow>
   erase_rows (idx # rest) jdx cd =
     erase_rows rest (Suc jdx)
       (map (\<lambda>(k, c). (k, c\<lparr>data := erase_at (nat (sint idx - int jdx)) (data c)\<rparr>)) cd)"
  by (simp add: Let_def)

lemma erase_rows_missing:
  assumes "jdx \<le> a" and "a + length d < 2 ^ 31"
    and "\<forall>(k, c)\<in>set cd. length (data c) = (a - jdx) + length d"
  shows "erase_rows (map (\<lambda>idx. to_int (a + idx))
                       (filter (\<lambda>idx. length (d ! idx) = 0) [0..<length d])) jdx cd =
         Inr (map (\<lambda>(k, c). (k, c\<lparr>data := keep_present (a - jdx) d (data c)\<rparr>)) cd)"
  using assms
proof (induction d arbitrary: a jdx cd)
  case Nil
  have "map (\<lambda>(k, c). (k, c\<lparr>data := keep_present (a - jdx) [] (data c)\<rparr>)) cd = cd"
    using Nil.prems(3) by (intro map_idI) (auto simp: keep_present_def)
  then show ?case by simp
next
  case (Cons e d)
  let ?p = "a - jdx"
  let ?rest = "map (\<lambda>idx. to_int (Suc a + idx))
                 (filter (\<lambda>idx. length (d ! idx) = 0) [0..<length d])"
  from Cons.prems have a: "a < 2 ^ 31" and sa: "Suc a + length d < 2 ^ 31" by simp_all
  from Cons.prems(3) have plen: "\<forall>(k, c)\<in>set cd. ?p < length (data c)" by auto
  show ?case
  proof (cases "e = []")
    case True
    let ?cd = "map (\<lambda>(k, c). (k, c\<lparr>data := erase_at (nat (sint (to_int a) - int jdx)) (data c)\<rparr>)) cd"
    have pos: "nat (sint (to_int a) - int jdx) = ?p"
      using Cons.prems(1) by (simp add: sint_to_int [OF a])
    have ok: "list_all (\<lambda>(k, c). 0 \<le> sint (to_int a) - int jdx \<and>
                sint (to_int a) - int jdx < int (length (data c))) cd"
      using plen Cons.prems(1) by (auto simp: list_all_iff sint_to_int [OF a])
    have sj: "Suc jdx < 2 ^ 31" using Cons.prems(1) sa by simp
    have "map (\<lambda>idx. to_int (a + idx))
            (filter (\<lambda>idx. length ((e # d) ! idx) = 0) [0..<length (e # d)]) = to_int a # ?rest"
      unfolding missing_Cons using True by (simp add: o_def)
    also have "erase_rows (to_int a # ?rest) jdx cd = erase_rows ?rest (Suc jdx) ?cd"
      using ok sj by (rule erase_rows_step)
    also have "\<dots> = Inr (map (\<lambda>(k, c). (k, c\<lparr>data := keep_present (Suc a - Suc jdx) d (data c)\<rparr>)) ?cd)"
    proof (rule Cons.IH [OF _ sa])
      show "Suc jdx \<le> Suc a" using Cons.prems(1) by simp
      show "\<forall>(k, c)\<in>set ?cd. length (data c) = (Suc a - Suc jdx) + length d"
        using Cons.prems(3) plen by (auto simp: pos erase_at_def)
    qed
    also have "map (\<lambda>(k, c). (k, c\<lparr>data := keep_present (Suc a - Suc jdx) d (data c)\<rparr>)) ?cd =
               map (\<lambda>(k, c). (k, c\<lparr>data := keep_present ?p (e # d) (data c)\<rparr>)) cd"
      using plen True by (auto simp: pos keep_present_erase)
    finally show ?thesis .
  next
    case False
    have "map (\<lambda>idx. to_int (a + idx))
            (filter (\<lambda>idx. length ((e # d) ! idx) = 0) [0..<length (e # d)]) = ?rest"
      unfolding missing_Cons using False by (simp add: o_def)
    also have "erase_rows ?rest jdx cd =
                 Inr (map (\<lambda>(k, c). (k, c\<lparr>data := keep_present (Suc a - jdx) d (data c)\<rparr>)) cd)"
    proof (rule Cons.IH [OF _ sa])
      show "jdx \<le> Suc a" using Cons.prems(1) by simp
      show "\<forall>(k, c)\<in>set cd. length (data c) = (Suc a - jdx) + length d"
        using Cons.prems(1,3) by auto
    qed
    also have "Suc a - jdx = Suc ?p" using Cons.prems(1) by simp
    also have "map (\<lambda>(k, c). (k, c\<lparr>data := keep_present (Suc ?p) d (data c)\<rparr>)) cd =
               map (\<lambda>(k, c). (k, c\<lparr>data := keep_present ?p (e # d) (data c)\<rparr>)) cd"
      using plen False by (auto simp: keep_present_skip)
    finally show ?thesis .
  qed
qed

lemma zip_filter_kept:
  "length xs = length d \<Longrightarrow>
   map fst (filter (\<lambda>(x, e). e \<noteq> []) (zip xs d)) =
     map (\<lambda>i. xs ! i) (kept (map (\<lambda>e. e \<noteq> []) d))"
  by (induction xs d rule: list_induct2) (simp_all add: kept_Nil kept_Cons o_def)

lemma zip_filter_self:
  "map fst (filter (\<lambda>(x, e). e \<noteq> []) (zip d d)) = present d"
  by (induction d) (simp_all add: present_def)

lemma dropna_result:
  assumes t: "map_of (col_data df) col = Some target"
    and eq: "list_all (\<lambda>(k, c). length (data c) = length (data target)) (col_data df)"
    and small: "length (data target) < 2 ^ 31"
  shows "dropna df col =
           Inr (df\<lparr>col_data :=
                     map (\<lambda>(k, c). (k, c\<lparr>data := keep_present 0 (data target) (data c)\<rparr>))
                       (col_data df)\<rparr>)"
proof -
  have "\<forall>(k, c)\<in>set (col_data df). length (data c) = (0 - 0) + length (data target)"
    using eq by (auto simp: list_all_iff)
  from erase_rows_missing [OF _ _ this] small
  have "erase_rows (map (\<lambda>idx. to_int (0 + idx))
                      (filter (\<lambda>idx. length (data target ! idx) = 0) [0..<length (data target)]))
          0 (col_data df) =
        Inr (map (\<lambda>(k, c). (k, c\<lparr>data := keep_present (0 - 0) (data target) (data c)\<rparr>))
               (col_data df))"
    by simp
  then have "erase_rows (map to_int
                      (filter (\<lambda>idx. length (data target ! idx) = 0) [0..<length (data target)]))
          0 (col_data df) =
        Inr (map (\<lambda>(k, c). (k, c\<lparr>data := keep_present 0 (data target) (data c)\<rparr>))
               (col_data df))"
    by (simp add: o_def)
  with t show ?thesis
    by (simp add: dropna_def)
qed

text \<open>
  Claim C6. Let \<open>col\<close> be a column of the table, let all columns have as many values as
  \<open>col\<close> (fewer than \<open>2 ^ 31\<close>, the indices being kept as \<^verbatim>\<open>int\<close>). Then \<^verbatim>\<open>dropna(col)\<close>
  returns normally; every column keeps its name and dtype and keeps exactly the values at
  the positions where \<open>col\<close> has a value, in their order, so all columns lose the same
  row indices; \<open>col\<close> itself is left with its values that are not missing and has no
  missing value; and all columns have the same number of values afterwards. The list
  \<open>columns\<close> and the row buffer are not touched.
\<close>

theorem dropna_removes_missing_rows:
  assumes "map_of (col_data df) col = Some target"
    and "list_all (\<lambda>(k, c). length (data c) = length (data target)) (col_data df)"
    and "length (data target) < 2 ^ 31"
  shows "\<exists>df'. dropna df col = Inr df' \<and> columns df' = columns df \<and>
     row_data df' = row_data df \<and>
     (\<forall>k. (map_of (col_data df') k = None \<longleftrightarrow> map_of (col_data df) k = None) \<and>
          (\<forall>c. map_of (col_data df) k = Some c \<longrightarrow>
             (\<exists>c'. map_of (col_data df') k = Some c' \<and> name c' = name c \<and> dtype c' = dtype c \<and>
                data c' = map (\<lambda>i. data c ! i) (kept (map (\<lambda>e. e \<noteq> []) (data target)))))) \<and>
     (\<exists>t'. map_of (col_data df') col = Some t' \<and> data t' = present (data target) \<and>
            [] \<notin> set (data t')) \<and>
     list_all (\<lambda>(k, c). length (data c) = length (present (data target))) (col_data df')"
proof -
  let ?f = "\<lambda>c. c\<lparr>data := keep_present 0 (data target) (data c)\<rparr>"
  let ?df' = "df\<lparr>col_data := map (\<lambda>(k, c). (k, ?f c)) (col_data df)\<rparr>"
  have r: "dropna df col = Inr ?df'"
    using assms by (rule dropna_result)
  have m: "map_of (map (\<lambda>(k, c). (k, ?f c)) (col_data df)) k =
             map_option ?f (map_of (col_data df) k)" for k
    by (simp add: map_of_map)
  have len: "length (data c) = length (data target)" if "map_of (col_data df) k = Some c" for k c
    using that assms(2) by (auto simp: list_all_iff dest!: map_of_SomeD)
  have kp: "keep_present 0 (data target) (data c) =
              map (\<lambda>i. data c ! i) (kept (map (\<lambda>e. e \<noteq> []) (data target)))"
    if "map_of (col_data df) k = Some c" for k c
    using len [OF that] by (simp add: keep_present_def zip_filter_kept)
  have 1: "(map_of (col_data ?df') k = None \<longleftrightarrow> map_of (col_data df) k = None) \<and>
          (\<forall>c. map_of (col_data df) k = Some c \<longrightarrow>
             (\<exists>c'. map_of (col_data ?df') k = Some c' \<and> name c' = name c \<and> dtype c' = dtype c \<and>
                data c' = map (\<lambda>i. data c ! i) (kept (map (\<lambda>e. e \<noteq> []) (data target)))))" for k
    using kp [of k] by (auto simp: m)
  have 2: "\<exists>t'. map_of (col_data ?df') col = Some t' \<and> data t' = present (data target) \<and>
            [] \<notin> set (data t')"
  proof -
    have "map_of (col_data ?df') col = Some (?f target)"
      using assms(1) by (simp add: m)
    moreover have d: "data (?f target) = present (data target)"
      by (simp add: keep_present_def zip_filter_self)
    moreover have "[] \<notin> set (data (?f target))"
      unfolding d by (simp add: present_def)
    ultimately show ?thesis by blast
  qed
  have "length (keep_present 0 (data target) (data c)) = length (present (data target))"
    if "(k, c) \<in> set (col_data df)" for k c
  proof -
    from that assms(2) have "length (data c) = length (data target)"
      by (auto simp: list_all_iff)
    then have "keep_present 0 (data target) (data c) =
                 map (\<lambda>i. data c ! i) (kept (map (\<lambda>e. e \<noteq> []) (data target)))"
      by (simp add: keep_present_def zip_filter_kept)
    then show ?thesis
      by (simp add: length_kept present_def filter_map o_def)
  qed
  then have 3: "list_all (\<lambda>(k, c). length (data c) = length (present (data target)))
                  (col_data ?df')"
    by (auto simp: list_all_iff)
  from r 1 2 3 show ?thesis
    by (intro exI [of _ ?df']) simp
qed

theorem dropna_removes_missing_rows_witness:
  "dropna
     \<lparr>col_data = [(''x'', \<lparr>name = ''x'', data = [''1'', '''', ''3''], dtype = ''int''\<rparr>),
                  (''y'', \<lparr>name = ''y'', data = [''a'', ''b'', ''c''], dtype = ''string''\<rparr>)],
      row_data = [[''x'', ''y''], [''1'', ''a''], ['''', ''b''], [''3'', ''c'']],
      file_dir = ''f.csv'', columns = [''x'', ''y'']\<rparr> ''x''
   = Inr
     \<lparr>col_data = [(''x'', \<lparr>name = ''x'', data = [''1'', ''3''], dtype = ''int''\<rparr>),
                  (''y'', \<lparr>name = ''y'', data = [''a'', ''c''], dtype = ''string''\<rparr>)],
      row_data = [[''x'', ''y''], [''1'', ''a''], ['''', ''b''], [''3'', ''c'']],
      file_dir = ''f.csv'', columns = [''x'', ''y'']\<rparr>"
proof -
  let ?x = "\<lparr>name = ''x'', data = [''1'', '''', ''3''], dtype = ''int''\<rparr>"
  let ?y = "\<lparr>name = ''y'', data = [''a'', ''b'', ''c''], dtype = ''string''\<rparr>"
  let ?t = "\<lparr>col_data = [(''x'', ?x), (''y'', ?y)],
      row_data = [[''x'', ''y''], [''1'', ''a''], ['''', ''b''], [''3'', ''c'']],
      file_dir = ''f.csv'', columns = [''x'', ''y'']\<rparr>"
  have a: "map_of (col_data ?t) ''x'' = Some ?x" by simp
  have b: "list_all (\<lambda>(k, c). length (data c) = length (data ?x)) (col_data ?t)" by simp
  have c: "length (data ?x) < 2 ^ 31" by simp
  from dropna_removes_missing_rows [OF a b c] obtain df'
    where "dropna ?t ''x'' = Inr df'" by blast
  moreover have "dropna ?t ''x'' = Inr
     \<lparr>col_data = [(''x'', \<lparr>name = ''x'', data = [''1'', ''3''], dtype = ''int''\<rparr>),
                  (''y'', \<lparr>name = ''y'', data = [''a'', ''c''], dtype = ''string''\<rparr>)],
      row_data = [[''x'', ''y''], [''1'', ''a''], ['''', ''b''], [''3'', ''c'']],
      file_dir = ''f.csv'', columns = [''x'', ''y'']\<rparr>"
    by (simp add: dropna_def erase_at_def to_int_def)
  ultimately show ?thesis by simp
qed

end
